theory Spec2Isabelle
  imports Main
begin

section \<open>JavaScript values\<close>

text \<open>
  The values that flow through \<^verbatim>\<open>src/index.js\<close>: the parsed manifest (the output of
  \<^verbatim>\<open>JSON.parse\<close>) and the caller's options object. An object is its list of own
  properties in insertion order; an array carries its elements and, as any JavaScript
  object, further named properties. A function is opaque and known by an identity.
  Numbers are integers here: the code only ever tests a number for truthiness.
\<close>

datatype jsval =
    JUndefined
  | JNull
  | JBool bool
  | JNum int
  | JStr string
  | JArr "jsval list" "(string \<times> jsval) list"
  | JObj "(string \<times> jsval) list"
  | JFun nat

type_synonym js_object = "(string \<times> jsval) list"

datatype error =
    TypeError string
  | IOError string
  | SyntaxError string
  | ScriptError string
  | YieldError

text \<open>The operator \<^verbatim>\<open>typeof\<close>.\<close>

fun typeof :: "jsval \<Rightarrow> string" where
  "typeof JUndefined = ''undefined''"
| "typeof JNull = ''object''"
| "typeof (JBool _) = ''boolean''"
| "typeof (JNum _) = ''number''"
| "typeof (JStr _) = ''string''"
| "typeof (JArr _ _) = ''object''"
| "typeof (JObj _) = ''object''"
| "typeof (JFun _) = ''function''"

text \<open>The conversion to boolean of \<^verbatim>\<open>if\<close>, \<^verbatim>\<open>&&\<close> and \<^verbatim>\<open>||\<close>.\<close>

fun truthy :: "jsval \<Rightarrow> bool" where
  "truthy JUndefined = False"
| "truthy JNull = False"
| "truthy (JBool b) = b"
| "truthy (JNum n) = (n \<noteq> 0)"
| "truthy (JStr s) = (s \<noteq> [])"
| "truthy (JArr _ _) = True"
| "truthy (JObj _) = True"
| "truthy (JFun _) = True"

text \<open>Reading an own property of an object given by its property list.\<close>

definition own_prop :: "js_object \<Rightarrow> string \<Rightarrow> jsval" where
  "own_prop fs k = (case map_of fs k of None \<Rightarrow> JUndefined | Some v \<Rightarrow> v)"

text \<open>
  The member access \<^verbatim>\<open>v.k\<close>. It throws on \<^verbatim>\<open>undefined\<close> and \<^verbatim>\<open>null\<close>. The code
  reads only the names background, browser_action, page, scripts, default_popup, popup,
  apiFake, beforeParse and afterBuild, none of which a primitive, an array or a function
  inherits, so those read \<^verbatim>\<open>undefined\<close> unless set.
\<close>

fun get_prop :: "jsval \<Rightarrow> string \<Rightarrow> error + jsval" where
  "get_prop JUndefined k = Inl (TypeError k)"
| "get_prop JNull k = Inl (TypeError k)"
| "get_prop (JObj fs) k = Inr (own_prop fs k)"
| "get_prop (JArr xs fs) k = Inr (own_prop fs k)"
| "get_prop v k = Inr JUndefined"

fun set_field :: "string \<Rightarrow> jsval \<Rightarrow> js_object \<Rightarrow> js_object" where
  "set_field k v [] = [(k, v)]"
| "set_field k v ((k', v') # fs) =
     (if k = k' then (k, v) # fs else (k', v') # set_field k v fs)"

text \<open>
  The assignment \<^verbatim>\<open>o.k = v\<close>. It throws on \<^verbatim>\<open>undefined\<close> and \<^verbatim>\<open>null\<close> and is
  silently dropped on a primitive.
\<close>

fun set_prop :: "jsval \<Rightarrow> string \<Rightarrow> jsval \<Rightarrow> error + jsval" where
  "set_prop JUndefined k v = Inl (TypeError k)"
| "set_prop JNull k v = Inl (TypeError k)"
| "set_prop (JObj fs) k v = Inr (JObj (set_field k v fs))"
| "set_prop (JArr xs fs) k v = Inr (JArr xs (set_field k v fs))"
| "set_prop w k v = Inr w"

text \<open>
  The iteration \<^verbatim>\<open>for (const x of v)\<close>: an array yields its elements, a string its
  characters, anything else the manifest can hold is not iterable.
\<close>

fun js_iterate :: "jsval \<Rightarrow> error + jsval list" where
  "js_iterate (JArr xs _) = Inr xs"
| "js_iterate (JStr s) = Inr (map (\<lambda>c. JStr [c]) s)"
| "js_iterate v = Inl (TypeError ''not iterable'')"

section \<open>The libraries the harness delegates to\<close>

text \<open>
  Node's \<^verbatim>\<open>path\<close> and \<^verbatim>\<open>fs\<close> modules, \<^verbatim>\<open>JSON.parse\<close>, the file loading of jsdom and the
  running of a script are parameters of the model, and so is the coverage helper
  \<^verbatim>\<open>./nyc\<close>, a module of the repository that \<^verbatim>\<open>index.js\<close> requires and whose source is
  not at hand.
  \<^item> \<open>document_scripts p\<close> is the list of the \<^verbatim>\<open>src\<close> attributes of the script elements
    of the HTML file at \<open>p\<close>, or \<open>None\<close> when jsdom cannot load the file.
  \<^item> \<open>nyc_instrument p\<close> is the instrumented source of the script at \<open>p\<close>, or \<open>None\<close>
    when the promise is rejected.
  \<^item> \<open>script_throws s\<close> says that evaluating the source \<open>s\<close> throws.
  \<^item> \<open>script_listeners s\<close> is the list of callbacks that evaluating \<open>s\<close> passes to
    \<^verbatim>\<open>browser.runtime.onMessage.addListener\<close>; nothing else of what a script does is
    modelled.
\<close>

record env =
  path_resolve :: "string list \<Rightarrow> string"
  path_join :: "string list \<Rightarrow> string"
  readFileSync :: "string \<Rightarrow> string option"
  JSON_parse :: "string \<Rightarrow> jsval option"
  document_scripts :: "string \<Rightarrow> string list option"
  nyc_instrument :: "string \<Rightarrow> string option"
  script_throws :: "string \<Rightarrow> bool"
  script_listeners :: "string \<Rightarrow> (jsval list \<Rightarrow> jsval) list"

text \<open>\<^verbatim>\<open>path.resolve\<close> and \<^verbatim>\<open>path.join\<close> throw a TypeError on an argument that is not a string.\<close>

fun js_strings :: "jsval list \<Rightarrow> error + string list" where
  "js_strings [] = Inr []"
| "js_strings (JStr s # vs) =
     (case js_strings vs of Inl e \<Rightarrow> Inl e | Inr ss \<Rightarrow> Inr (s # ss))"
| "js_strings (v # vs) = Inl (TypeError ''path'')"

definition js_path_resolve :: "env \<Rightarrow> jsval list \<Rightarrow> error + string" where
  "js_path_resolve E vs =
     (case js_strings vs of Inl e \<Rightarrow> Inl e | Inr ss \<Rightarrow> Inr (path_resolve E ss))"

definition js_path_join :: "env \<Rightarrow> jsval list \<Rightarrow> error + string" where
  "js_path_join E vs =
     (case js_strings vs of Inl e \<Rightarrow> Inl e | Inr ss \<Rightarrow> Inr (path_join E ss))"

section \<open>The state of a WebExtensionsJSDOM instance\<close>

text \<open>
  Objects with an identity (browser objects, JSDOM instances) live in a store and are known
  by a reference; \<open>next_ref\<close> is the next unused reference. A context is the object
  stored under \<^verbatim>\<open>this.webExtension.background\<close> or \<^verbatim>\<open>this.webExtension.popup\<close>; its
  \<open>ctx_document\<close> is the reference of the JSDOM instance whose \<^verbatim>\<open>window.document\<close> it
  is, and \<open>ctx_helper\<close> says that the context has the \<^verbatim>\<open>helper\<close> property. The
  function \<^verbatim>\<open>writeCoverage\<close> of a context is left out.
\<close>

record page_context =
  ctx_browser :: nat
  ctx_dom :: nat
  ctx_document :: nat
  ctx_helper :: bool

text \<open>
  A browser object returned by \<^verbatim>\<open>createBrowser\<close>, with what the code did with this
  object: whether its \<^verbatim>\<open>contextMenus\<close> was aliased to \<^verbatim>\<open>menus\<close>, whether \<^verbatim>\<open>fakeApi\<close>
  was called with it, and whether \<^verbatim>\<open>callsFake\<close> was called on its
  \<^verbatim>\<open>runtime.sendMessage\<close> with the forwarding function of lines 122-125. It holds no
  behaviour: that is in the stubs.
\<close>

record browser_stub =
  contextMenus_aliased :: bool
  api_faked :: bool
  sendMessage_forwards :: bool

text \<open>
  The sinon stubs. The browser objects that one \<^verbatim>\<open>WebExtensionsApiFake\<close> instance creates
  have the same stubs under them, and a \<open>WebExtensionsJSDOM\<close> instance has one
  \<^verbatim>\<open>WebExtensionsApiFake\<close> (line 9): a behaviour installed, a fake applied or a call
  recorded through the browser of one context is there through the browser of the
  other. \<open>stub_faked\<close> says that \<^verbatim>\<open>fakeApi\<close> was applied, \<open>stub_forwards\<close> that
  \<^verbatim>\<open>runtime.sendMessage\<close> has the forwarding function of lines 122-125, and
  \<open>stub_listeners\<close> are the callbacks of the calls of
  \<^verbatim>\<open>runtime.onMessage.addListener\<close>, in the order of the calls.
\<close>

record api_stubs =
  stub_faked :: bool
  stub_forwards :: bool
  stub_listeners :: "(jsval list \<Rightarrow> jsval) list"

record jsdom_instance =
  dom_path :: "string option"
  dom_html :: "string option"
  script_elements :: "string list"
  window_browser :: "nat option"
  evaluated :: "string list"

text \<open>The calls made to the libraries, in order of time; the log is a ghost field.\<close>

datatype event =
    ReadFile string
  | CreateBrowser nat
  | NewWindow nat
  | SetWindowBrowser nat nat
  | FakeApi nat
  | CallsFake nat
  | CallFunction nat
  | Parse nat
  | Instrument string
  | Eval nat string

record harness =
  next_ref :: nat
  webExtensionsApiFake :: api_stubs
  browsers :: "nat \<rightharpoonup> browser_stub"
  doms :: "nat \<rightharpoonup> jsdom_instance"
  webExtension :: "string \<rightharpoonup> page_context"
  trace :: "event list"

definition log :: "event \<Rightarrow> harness \<Rightarrow> harness" where
  "log e st = st\<lparr>trace := trace st @ [e]\<rparr>"

text \<open>The constructor, lines 8-13.\<close>

definition new_WebExtensionsJSDOM :: harness where
  "new_WebExtensionsJSDOM =
     \<lparr>next_ref = 0,
      webExtensionsApiFake = \<lparr>stub_faked = False, stub_forwards = False, stub_listeners = []\<rparr>,
      browsers = Map.empty, doms = Map.empty, webExtension = Map.empty, trace = []\<rparr>"

subsection \<open>webextensions-api-fake and sinon\<close>

text \<open>
  \<^verbatim>\<open>createBrowser\<close> returns a new browser object on each call, over the stubs of the
  instance, which it leaves as they are. It is followed here by line 66 (and 112),
  \<^verbatim>\<open>browser.contextMenus = browser.menus\<close>.
\<close>

definition createBrowser :: "harness \<Rightarrow> nat \<times> harness" where
  "createBrowser st =
     (let b = next_ref st in
      (b, log (CreateBrowser b)
            (st\<lparr>next_ref := Suc b,
                browsers := (browsers st)(b \<mapsto>
                  \<lparr>contextMenus_aliased = True, api_faked = False,
                   sendMessage_forwards = False\<rparr>)\<rparr>)))"

definition update_browser ::
  "nat \<Rightarrow> (browser_stub \<Rightarrow> browser_stub) \<Rightarrow> harness \<Rightarrow> harness" where
  "update_browser b f st =
     (case browsers st b of
        None \<Rightarrow> st
      | Some B \<Rightarrow> st\<lparr>browsers := (browsers st)(b \<mapsto> f B)\<rparr>)"

definition update_dom ::
  "nat \<Rightarrow> (jsdom_instance \<Rightarrow> jsdom_instance) \<Rightarrow> harness \<Rightarrow> harness" where
  "update_dom d f st =
     (case doms st d of
        None \<Rightarrow> st
      | Some D \<Rightarrow> st\<lparr>doms := (doms st)(d \<mapsto> f D)\<rparr>)"

definition update_stubs :: "(api_stubs \<Rightarrow> api_stubs) \<Rightarrow> harness \<Rightarrow> harness" where
  "update_stubs f st = st\<lparr>webExtensionsApiFake := f (webExtensionsApiFake st)\<rparr>"

text \<open>\<^verbatim>\<open>fakeApi(browser)\<close> gives the stubs under the browser the behaviour of the fakes.\<close>

definition fakeApi :: "nat \<Rightarrow> harness \<Rightarrow> harness" where
  "fakeApi b st =
     log (FakeApi b)
       (update_stubs (\<lambda>S. S\<lparr>stub_faked := True\<rparr>)
          (update_browser b (\<lambda>B. B\<lparr>api_faked := True\<rparr>) st))"

text \<open>
  \<^verbatim>\<open>browser.runtime.sendMessage.callsFake(f)\<close> for the function \<open>f\<close> of lines 122-125:
  the stub gets the behaviour \<open>f\<close>.
\<close>

definition sendMessage_callsFake :: "nat \<Rightarrow> harness \<Rightarrow> harness" where
  "sendMessage_callsFake b st =
     log (CallsFake b)
       (update_stubs (\<lambda>S. S\<lparr>stub_forwards := True\<rparr>)
          (update_browser b (\<lambda>B. B\<lparr>sendMessage_forwards := True\<rparr>) st))"

text \<open>
  sinon's \<^verbatim>\<open>stub.yield(...args)\<close>: it throws when the stub was never called, otherwise
  it calls each recorded callback with the arguments and returns the results in order.
\<close>

definition stub_yield ::
  "(jsval list \<Rightarrow> jsval) list \<Rightarrow> jsval list \<Rightarrow> error + jsval list" where
  "stub_yield ls args = (if ls = [] then Inl YieldError else Inr (map (\<lambda>f. f args) ls))"

text \<open>
  Line 123, the value of
  \<^verbatim>\<open>that.webExtension.background.browser.runtime.onMessage.addListener.yield(...args)\<close>:
  \<^verbatim>\<open>that.webExtension.background\<close> is read at the time of the call, and the arguments
  are yielded to the callbacks of \<^verbatim>\<open>addListener\<close> under the browser of that context.
\<close>

definition onMessage_yield :: "harness \<Rightarrow> jsval list \<Rightarrow> error + jsval list" where
  "onMessage_yield st args =
     (case webExtension st ''background'' of
        None \<Rightarrow> Inl (TypeError ''browser'')
      | Some bg \<Rightarrow>
          (case browsers st (ctx_browser bg) of
             None \<Rightarrow> Inl (TypeError ''runtime'')
           | Some BG \<Rightarrow> stub_yield (stub_listeners (webExtensionsApiFake st)) args))"

text \<open>
  A call \<^verbatim>\<open>browser.runtime.sendMessage(...args)\<close> through the browser object \<open>b\<close>. A
  stub without a behaviour returns \<^verbatim>\<open>undefined\<close> (what \<^verbatim>\<open>fakeApi\<close> makes of
  \<^verbatim>\<open>sendMessage\<close> is not modelled); with the function of lines 122-125 the call returns
  the first element of the array that line 123 yields (\<^verbatim>\<open>const [result] = ...\<close>).
\<close>

definition runtime_sendMessage :: "harness \<Rightarrow> nat \<Rightarrow> jsval list \<Rightarrow> error + jsval" where
  "runtime_sendMessage st b args =
     (case browsers st b of
        None \<Rightarrow> Inl (TypeError ''runtime'')
      | Some B \<Rightarrow>
          if stub_forwards (webExtensionsApiFake st) then
            (case onMessage_yield st args of
               Inl e \<Rightarrow> Inl e
             | Inr results \<Rightarrow> Inr (case results of [] \<Rightarrow> JUndefined | r # _ \<Rightarrow> r))
          else Inr JUndefined)"

subsection \<open>jsdom\<close>

text \<open>
  The constructor of a JSDOM instance: the window is created, the \<^verbatim>\<open>beforeParse\<close>
  option is called with it, and then the document is parsed. \<open>srcs\<close> are the \<^verbatim>\<open>src\<close>
  attributes of the script elements of the document.
\<close>

type_synonym hook = "nat \<Rightarrow> harness \<Rightarrow> error + harness"

definition new_JSDOM ::
  "string option \<Rightarrow> string option \<Rightarrow> string list \<Rightarrow> hook \<Rightarrow> harness \<Rightarrow>
   error + (nat \<times> harness)" where
  "new_JSDOM p html srcs beforeParse st =
     (let d = next_ref st;
          st1 = log (NewWindow d)
                  (st\<lparr>next_ref := Suc d,
                      doms := (doms st)(d \<mapsto>
                        \<lparr>dom_path = p, dom_html = html, script_elements = [],
                         window_browser = None, evaluated = []\<rparr>)\<rparr>)
      in case beforeParse d st1 of
           Inl e \<Rightarrow> Inl e
         | Inr st2 \<Rightarrow>
             Inr (d, log (Parse d)
                       (update_dom d (\<lambda>D. D\<lparr>script_elements := srcs\<rparr>) st2)))"

text \<open>\<^verbatim>\<open>JSDOM.fromFile\<close> is rejected when the file cannot be loaded.\<close>

definition JSDOM_fromFile ::
  "env \<Rightarrow> string option \<Rightarrow> hook \<Rightarrow> harness \<Rightarrow> error + (nat \<times> harness)" where
  "JSDOM_fromFile E p beforeParse st =
     (case p of
        None \<Rightarrow> Inl (TypeError ''path'')
      | Some f \<Rightarrow>
          (case document_scripts E f of
             None \<Rightarrow> Inl (IOError f)
           | Some srcs \<Rightarrow> new_JSDOM (Some f) None srcs beforeParse st))"

definition getElementsByTagName_script :: "harness \<Rightarrow> nat \<Rightarrow> string list" where
  "getElementsByTagName_script st d =
     (case doms st d of None \<Rightarrow> [] | Some D \<Rightarrow> script_elements D)"

text \<open>
  \<^verbatim>\<open>dom.window.eval(src)\<close>: the source is run in the window; the callbacks it passes to
  \<^verbatim>\<open>browser.runtime.onMessage.addListener\<close>, where the window has a \<^verbatim>\<open>browser\<close>, are
  recorded by the stub after those it holds.
\<close>

definition window_eval :: "env \<Rightarrow> nat \<Rightarrow> string \<Rightarrow> harness \<Rightarrow> error + harness" where
  "window_eval E d src st =
     (if script_throws E src then Inl (ScriptError src)
      else
        (let st1 = update_dom d (\<lambda>D. D\<lparr>evaluated := evaluated D @ [src]\<rparr>) st;
             st2 = (case doms st1 d of
                      None \<Rightarrow> st1
                    | Some D \<Rightarrow>
                        (case window_browser D of
                           None \<Rightarrow> st1
                         | Some b \<Rightarrow>
                             update_stubs
                               (\<lambda>S. S\<lparr>stub_listeners :=
                                        stub_listeners S @ script_listeners E src\<rparr>)
                               st1))
         in Inr (log (Eval d src) st2)))"

section \<open>buildDom, lines 23-61\<close>

text \<open>\<^verbatim>\<open>s.replace(/^file:\/\//, '')\<close>\<close>

definition strip_file_prefix :: "string \<Rightarrow> string" where
  "strip_file_prefix s = (if take 7 s = ''file://'' then drop 7 s else s)"

text \<open>
  The body shared by the two loops of lines 42-47 and 50-55, over the \<^verbatim>\<open>src\<close> attributes
  of the script elements or over the given scripts: \<open>acc\<close> is \<^verbatim>\<open>scriptSrcs\<close>.
\<close>

fun instrument_loop ::
  "env \<Rightarrow> string list \<Rightarrow> string \<Rightarrow> harness \<Rightarrow> error + (string \<times> harness)" where
  "instrument_loop E [] acc st = Inr (acc, st)"
| "instrument_loop E (script # rest) acc st =
     (let scriptSrc = strip_file_prefix script in
      case nyc_instrument E scriptSrc of
        None \<Rightarrow> Inl (IOError scriptSrc)
      | Some code \<Rightarrow>
          instrument_loop E rest ((acc @ code) @ '';\<newline>;'') (log (Instrument scriptSrc) st))"

text \<open>
  The options of \<open>buildDom\<close> that the code sets: \<^verbatim>\<open>path\<close> and \<^verbatim>\<open>beforeParse\<close>. The
  arguments \<open>html\<close> and \<open>scripts\<close> are \<open>None\<close> for their default \<^verbatim>\<open>false\<close>; an empty
  \<open>html\<close> is falsy too. The virtual console and the wait of \<^verbatim>\<open>nextTick\<close> have no
  effect on the state and are left out.
\<close>

record buildDomOptions =
  opt_path :: "string option"
  opt_beforeParse :: hook

definition buildDom ::
  "env \<Rightarrow> buildDomOptions \<Rightarrow> string option \<Rightarrow> string list option \<Rightarrow> harness \<Rightarrow>
   error + (nat \<times> harness)" where
  "buildDom E options html scripts st =
     (case
        (if html = None \<or> html = Some [] then
           (case JSDOM_fromFile E (opt_path options) (opt_beforeParse options) st of
              Inl e \<Rightarrow> Inl e
            | Inr (d, st1) \<Rightarrow>
                (case instrument_loop E (getElementsByTagName_script st1 d) [] st1 of
                   Inl e \<Rightarrow> Inl e
                 | Inr (scriptSrcs, st2) \<Rightarrow> Inr (d, scriptSrcs, st2)))
         else
           (case new_JSDOM (opt_path options) html [] (opt_beforeParse options) st of
              Inl e \<Rightarrow> Inl e
            | Inr (d, st1) \<Rightarrow>
                (case scripts of
                   None \<Rightarrow> Inl (TypeError ''not iterable'')
                 | Some ss \<Rightarrow>
                     (case instrument_loop E ss [] st1 of
                        Inl e \<Rightarrow> Inl e
                      | Inr (scriptSrcs, st2) \<Rightarrow> Inr (d, scriptSrcs, st2)))))
      of
        Inl e \<Rightarrow> Inl e
      | Inr (d, scriptSrcs, st2) \<Rightarrow>
          (case window_eval E d scriptSrcs st2 of
             Inl e \<Rightarrow> Inl e
           | Inr st3 \<Rightarrow> Inr (d, st3)))"

section \<open>buildBackground and buildPopup, lines 63-152\<close>

text \<open>
  \<^verbatim>\<open>if (options && options.f) { options.f(arg); }\<close> for a callback of the caller: the
  call is logged, and calling a truthy value that is not a function throws. What the
  callback does is not modelled.
\<close>

definition call_option :: "jsval \<Rightarrow> string \<Rightarrow> harness \<Rightarrow> error + harness" where
  "call_option options k st =
     (if truthy options then
        (case get_prop options k of
           Inl e \<Rightarrow> Inl e
         | Inr f \<Rightarrow>
             if truthy f then
               (case f of
                  JFun i \<Rightarrow> Inr (log (CallFunction i) st)
                | _ \<Rightarrow> Inl (TypeError k))
             else Inr st)
      else Inr st)"

definition set_window_browser :: "nat \<Rightarrow> nat \<Rightarrow> harness \<Rightarrow> harness" where
  "set_window_browser window b st =
     log (SetWindowBrowser window b)
       (update_dom window (\<lambda>D. D\<lparr>window_browser := Some b\<rparr>) st)"

text \<open>The \<^verbatim>\<open>beforeParse\<close> of lines 69-78.\<close>

definition background_beforeParse :: "nat \<Rightarrow> jsval \<Rightarrow> hook" where
  "background_beforeParse b options window st =
     (let st1 = set_window_browser window b st in
      case get_prop options ''apiFake'' of
        Inl e \<Rightarrow> Inl e
      | Inr apiFake \<Rightarrow>
          call_option options ''beforeParse''
            (if truthy apiFake then fakeApi b st1 else st1))"

text \<open>The \<^verbatim>\<open>beforeParse\<close> of lines 115-131.\<close>

definition popup_beforeParse :: "nat \<Rightarrow> jsval \<Rightarrow> hook" where
  "popup_beforeParse b options window st =
     (let st1 = set_window_browser window b st in
      case get_prop options ''apiFake'' of
        Inl e \<Rightarrow> Inl e
      | Inr apiFake \<Rightarrow>
          (let st2 = (if truthy apiFake then fakeApi b st1 else st1);
               st3 = (if webExtension st2 ''background'' \<noteq> None
                      then sendMessage_callsFake b st2
                      else st2)
           in call_option options ''beforeParse'' st3))"

text \<open>The default \<^verbatim>\<open>options = {}\<close> of a parameter applies to \<^verbatim>\<open>undefined\<close> only.\<close>

definition default_options :: "jsval \<Rightarrow> jsval" where
  "default_options options = (if options = JUndefined then JObj [] else options)"

text \<open>The loop of lines 89-91.\<close>

fun resolve_scripts :: "env \<Rightarrow> string \<Rightarrow> jsval list \<Rightarrow> error + string list" where
  "resolve_scripts E manifestPath [] = Inr []"
| "resolve_scripts E manifestPath (script # rest) =
     (case js_path_join E [JStr manifestPath, script] of
        Inl e \<Rightarrow> Inl e
      | Inr joined \<Rightarrow>
          (case resolve_scripts E manifestPath rest of
             Inl e \<Rightarrow> Inl e
           | Inr ps \<Rightarrow> Inr (path_resolve E [joined] # ps)))"

definition background_html :: string where
  "background_html = ''<!DOCTYPE html><html><head></head><body></body></html>''"

text \<open>Lines 81-93: \<open>None\<close> is the \<^verbatim>\<open>dom\<close> that stays \<^verbatim>\<open>undefined\<close>.\<close>

definition background_dom ::
  "env \<Rightarrow> jsval \<Rightarrow> string \<Rightarrow> hook \<Rightarrow> harness \<Rightarrow> error + (nat option \<times> harness)" where
  "background_dom E background manifestPath beforeParse st =
     (case get_prop background ''page'' of
        Inl e \<Rightarrow> Inl e
      | Inr page \<Rightarrow>
          if truthy page then
            (case js_path_resolve E [JStr manifestPath, page] of
               Inl e \<Rightarrow> Inl e
             | Inr backgroundPath \<Rightarrow>
                 (case buildDom E
                         \<lparr>opt_path = Some backgroundPath, opt_beforeParse = beforeParse\<rparr>
                         None None st of
                    Inl e \<Rightarrow> Inl e
                  | Inr (d, st1) \<Rightarrow> Inr (Some d, st1)))
          else
            (case get_prop background ''scripts'' of
               Inl e \<Rightarrow> Inl e
             | Inr scripts \<Rightarrow>
                 if truthy scripts then
                   (case js_iterate scripts of
                      Inl e \<Rightarrow> Inl e
                    | Inr items \<Rightarrow>
                        (case resolve_scripts E manifestPath items of
                           Inl e \<Rightarrow> Inl e
                         | Inr ps \<Rightarrow>
                             (case buildDom E
                                     \<lparr>opt_path = None, opt_beforeParse = beforeParse\<rparr>
                                     (Some background_html) (Some ps) st of
                                Inl e \<Rightarrow> Inl e
                              | Inr (d, st1) \<Rightarrow> Inr (Some d, st1))))
                 else Inr (None, st)))"

definition buildBackground ::
  "env \<Rightarrow> jsval \<Rightarrow> string \<Rightarrow> jsval \<Rightarrow> harness \<Rightarrow> error + (page_context \<times> harness)" where
  "buildBackground E background manifestPath options0 st =
     (let options = default_options options0;
          (b, st1) = createBrowser st
      in case background_dom E background manifestPath
                (background_beforeParse b options) st1 of
           Inl e \<Rightarrow> Inl e
         | Inr (None, st2) \<Rightarrow> Inl (TypeError ''window'')
         | Inr (Some d, st2) \<Rightarrow>
             (let c = \<lparr>ctx_browser = b, ctx_dom = d, ctx_document = d, ctx_helper = False\<rparr>;
                  st3 = st2\<lparr>webExtension := (webExtension st2)(''background'' \<mapsto> c)\<rparr>
              in case call_option options ''afterBuild'' st3 of
                   Inl e \<Rightarrow> Inl e
                 | Inr st4 \<Rightarrow> Inr (c, st4)))"

definition buildPopup ::
  "env \<Rightarrow> string \<Rightarrow> jsval \<Rightarrow> harness \<Rightarrow> error + (page_context \<times> harness)" where
  "buildPopup E popupPath options0 st =
     (let options = default_options options0;
          (b, st1) = createBrowser st
      in case buildDom E
                \<lparr>opt_path = Some popupPath, opt_beforeParse = popup_beforeParse b options\<rparr>
                None None st1 of
           Inl e \<Rightarrow> Inl e
         | Inr (d, st2) \<Rightarrow>
             (let c = \<lparr>ctx_browser = b, ctx_dom = d, ctx_document = d, ctx_helper = True\<rparr>;
                  st3 = st2\<lparr>webExtension := (webExtension st2)(''popup'' \<mapsto> c)\<rparr>
              in case call_option options ''afterBuild'' st3 of
                   Inl e \<Rightarrow> Inl e
                 | Inr st4 \<Rightarrow> Inr (c, st4)))"

section \<open>fromManifest, lines 155-186\<close>

text \<open>
  The conditions of lines 161-163 and 173-174, with the short-circuit evaluation of
  \<^verbatim>\<open>&&\<close> and \<^verbatim>\<open>||\<close>: a member access on a manifest that is \<^verbatim>\<open>null\<close> throws only when it
  is reached.
\<close>

definition background_guard :: "js_object \<Rightarrow> jsval \<Rightarrow> error + bool" where
  "background_guard options manifest =
     (if typeof (own_prop options ''background'') = ''undefined''
         \<or> truthy (own_prop options ''background'')
      then
        (case get_prop manifest ''background'' of
           Inl e \<Rightarrow> Inl e
         | Inr mb \<Rightarrow>
             if truthy mb then
               (case get_prop mb ''page'' of
                  Inl e \<Rightarrow> Inl e
                | Inr page \<Rightarrow>
                    if truthy page then Inr True
                    else (case get_prop mb ''scripts'' of
                            Inl e \<Rightarrow> Inl e
                          | Inr scripts \<Rightarrow> Inr (truthy scripts)))
             else Inr False)
      else Inr False)"

definition popup_guard :: "js_object \<Rightarrow> jsval \<Rightarrow> error + bool" where
  "popup_guard options manifest =
     (if typeof (own_prop options ''popup'') = ''undefined''
         \<or> truthy (own_prop options ''popup'')
      then
        (case get_prop manifest ''browser_action'' of
           Inl e \<Rightarrow> Inl e
         | Inr ba \<Rightarrow>
             if truthy ba then
               (case get_prop ba ''default_popup'' of
                  Inl e \<Rightarrow> Inl e
                | Inr p \<Rightarrow> Inr (truthy p))
             else Inr False)
      else Inr False)"

text \<open>
  Lines 164-169 and 176-181 for the option \<open>k\<close> (background or popup): the option is
  replaced by an empty object unless it is one, and receives the top-level
  \<^verbatim>\<open>apiFake\<close> when that is defined. The result is the options object after the
  assignments.
\<close>

definition prepare_option :: "string \<Rightarrow> js_object \<Rightarrow> error + js_object" where
  "prepare_option k options =
     (let options1 = (if typeof (own_prop options k) \<noteq> ''object''
                      then set_field k (JObj []) options else options)
      in if typeof (own_prop options1 ''apiFake'') \<noteq> ''undefined'' then
           (case set_prop (own_prop options1 k) ''apiFake'' (own_prop options1 ''apiFake'') of
              Inl e \<Rightarrow> Inl e
            | Inr v \<Rightarrow> Inr (set_field k v options1))
         else Inr options1)"

text \<open>
  \<open>fromManifest\<close> returns the options object as the call leaves it, which the caller
  still holds, together with the outcome of the promise: an error, or the resolved
  object \<^verbatim>\<open>webExtension\<close> (a map from property names to contexts) and the final state of
  the instance it created.
\<close>

type_synonym outcome = "js_object \<times> (error + ((string \<rightharpoonup> page_context) \<times> harness))"

text \<open>Lines 161-171.\<close>

definition load_background ::
  "env \<Rightarrow> string \<Rightarrow> jsval \<Rightarrow> js_object \<Rightarrow> harness \<Rightarrow> outcome" where
  "load_background E manifestPath manifest options st =
     (case background_guard options manifest of
        Inl e \<Rightarrow> (options, Inl e)
      | Inr False \<Rightarrow> (options, Inr (Map.empty, st))
      | Inr True \<Rightarrow>
          (case prepare_option ''background'' options of
             Inl e \<Rightarrow> (options, Inl e)
           | Inr options1 \<Rightarrow>
               (case get_prop manifest ''background'' of
                  Inl e \<Rightarrow> (options1, Inl e)
                | Inr mb \<Rightarrow>
                    (case buildBackground E mb manifestPath
                            (own_prop options1 ''background'') st of
                       Inl e \<Rightarrow> (options1, Inl e)
                     | Inr (c, st1) \<Rightarrow>
                         (options1, Inr (Map.empty(''background'' \<mapsto> c), st1))))))"

text \<open>Lines 173-183.\<close>

definition load_popup ::
  "env \<Rightarrow> string \<Rightarrow> jsval \<Rightarrow> js_object \<Rightarrow> (string \<rightharpoonup> page_context) \<Rightarrow> harness \<Rightarrow> outcome"
  where
  "load_popup E manifestPath manifest options result st =
     (case popup_guard options manifest of
        Inl e \<Rightarrow> (options, Inl e)
      | Inr False \<Rightarrow> (options, Inr (result, st))
      | Inr True \<Rightarrow>
          (case get_prop manifest ''browser_action'' of
             Inl e \<Rightarrow> (options, Inl e)
           | Inr ba \<Rightarrow>
               (case get_prop ba ''default_popup'' of
                  Inl e \<Rightarrow> (options, Inl e)
                | Inr default_popup \<Rightarrow>
                    (case js_path_resolve E [JStr manifestPath, default_popup] of
                       Inl e \<Rightarrow> (options, Inl e)
                     | Inr popupPath \<Rightarrow>
                         (case prepare_option ''popup'' options of
                            Inl e \<Rightarrow> (options, Inl e)
                          | Inr options1 \<Rightarrow>
                              (case buildPopup E popupPath
                                      (own_prop options1 ''popup'') st of
                                 Inl e \<Rightarrow> (options1, Inl e)
                               | Inr (c, st1) \<Rightarrow>
                                   (options1, Inr (result(''popup'' \<mapsto> c), st1))))))))"

definition fromManifest :: "env \<Rightarrow> string \<Rightarrow> js_object \<Rightarrow> outcome" where
  "fromManifest E manifestPath options =
     (let webExtensionJSDOM = new_WebExtensionsJSDOM;
          manifestFilePath = path_resolve E [manifestPath, ''manifest.json'']
      in case readFileSync E manifestFilePath of
           None \<Rightarrow> (options, Inl (IOError manifestFilePath))
         | Some text \<Rightarrow>
             (case JSON_parse E text of
                None \<Rightarrow> (options, Inl (SyntaxError text))
              | Some manifest \<Rightarrow>
                  (case load_background E manifestPath manifest options
                          (log (ReadFile manifestFilePath) webExtensionJSDOM) of
                     (options1, Inl e) \<Rightarrow> (options1, Inl e)
                   | (options1, Inr (result, st1)) \<Rightarrow>
                       load_popup E manifestPath manifest options1 result st1)))"

section \<open>An example extension\<close>

text \<open>
  The extension of the README's example, under the directory \<open>/ext\<close>: a manifest, the
  pages \<open>background.html\<close> and \<open>popup.html\<close>, each with one script, and a page
  \<open>options.html\<close> with both scripts. The background script registers two
  \<^verbatim>\<open>runtime.onMessage\<close> listeners: the first answers with the array of the word
  background and its arguments, the second with the word second. The popup script
  registers one listener, which answers with the number of its arguments. The manifest
  is a parameter. \<open>example_join\<close> stands for
  \<^verbatim>\<open>path.resolve\<close> and \<^verbatim>\<open>path.join\<close> on the arguments that occur (an absolute directory
  and a plain file name).
\<close>

fun example_join :: "string list \<Rightarrow> string" where
  "example_join [] = []"
| "example_join [a] = a"
| "example_join (a # b # rest) = example_join ((a @ ''/'' @ b) # rest)"

definition example_env :: "jsval \<Rightarrow> env" where
  "example_env manifest =
     \<lparr>path_resolve = example_join,
      path_join = example_join,
      readFileSync = (\<lambda>p. if p = ''/ext/manifest.json'' then Some ''{}'' else None),
      JSON_parse = (\<lambda>t. if t = ''{}'' then Some manifest else None),
      document_scripts =
        (\<lambda>p. if p = ''/ext/background.html'' then Some [''file:///ext/background.js'']
             else if p = ''/ext/popup.html'' then Some [''file:///ext/popup.js'']
             else if p = ''/ext/options.html''
               then Some [''file:///ext/background.js'', ''file:///ext/popup.js'']
             else None),
      nyc_instrument =
        (\<lambda>p. if p = ''/ext/background.js'' then Some ''B''
             else if p = ''/ext/popup.js'' then Some ''P''
             else None),
      script_throws = (\<lambda>s. False),
      script_listeners =
        (\<lambda>s. if take 1 s = ''B''
             then [\<lambda>args. JArr (JStr ''background'' # args) [], \<lambda>args. JStr ''second'']
             else if take 1 s = ''P'' then [\<lambda>args. JNum (int (length args))]
             else [])\<rparr>"

definition example_manifest :: jsval where
  "example_manifest =
     JObj [(''browser_action'', JObj [(''default_popup'', JStr ''popup.html'')]),
           (''background'', JObj [(''page'', JStr ''background.html'')])]"

definition scripts_manifest :: jsval where
  "scripts_manifest =
     JObj [(''browser_action'', JObj [(''default_popup'', JStr ''popup.html'')]),
           (''background'', JObj [(''scripts'', JArr [JStr ''background.js''] [])])]"

definition sidebar_manifest :: jsval where
  "sidebar_manifest =
     JObj [(''browser_action'', JObj [(''default_popup'', JStr ''popup.html'')]),
           (''sidebar_action'', JObj [(''default_panel'', JStr ''sidebar.html'')]),
           (''background'', JObj [(''page'', JStr ''background.html'')])]"

text \<open>Reading an outcome: whether the promise resolved, and a property of the resolved object.\<close>

definition resolved :: "outcome \<Rightarrow> bool" where
  "resolved r = (case snd r of Inl e \<Rightarrow> False | Inr x \<Rightarrow> True)"

definition resolved_context :: "outcome \<Rightarrow> string \<Rightarrow> page_context option" where
  "resolved_context r k = (case snd r of Inl e \<Rightarrow> None | Inr (result, st) \<Rightarrow> result k)"

section \<open>Notions used to state the properties\<close>

text \<open>
  \<open>peek v k\<close> is \<^verbatim>\<open>v.k\<close> where that does not throw, and \<^verbatim>\<open>undefined\<close> otherwise.
\<close>

definition peek :: "jsval \<Rightarrow> string \<Rightarrow> jsval" where
  "peek v k = (case get_prop v k of Inl e \<Rightarrow> JUndefined | Inr x \<Rightarrow> x)"

text \<open>
  The value of the option background or popup after a call that builds the context, in
  the words of the description of the options: an option that is not an object is
  replaced by an empty object, and a defined top-level \<^verbatim>\<open>apiFake\<close> is copied into the
  \<^verbatim>\<open>apiFake\<close> property of the option.
\<close>

definition prepared_option :: "jsval \<Rightarrow> jsval \<Rightarrow> jsval" where
  "prepared_option option apiFake =
     (let option1 = (if typeof option \<noteq> ''object'' then JObj [] else option)
      in if typeof apiFake \<noteq> ''undefined'' then
           (case set_prop option1 ''apiFake'' apiFake of
              Inl e \<Rightarrow> option1
            | Inr v \<Rightarrow> v)
         else option1)"

text \<open>
  The TypeError of line 98: the read of \<^verbatim>\<open>dom.window\<close> on a \<^verbatim>\<open>dom\<close> that is
  \<^verbatim>\<open>undefined\<close>. No other error of the model has this value.
\<close>

definition window_error :: error where
  "window_error = TypeError ''window''"

text \<open>
  A build that leads from the state \<open>st\<close> to \<open>st'\<close> and returns the context \<open>c\<close> has
  stubbed the window for the given options: the stub of \<open>c\<close> did not exist in \<open>st\<close>, it is
  the \<^verbatim>\<open>browser\<close> of the window of \<open>c\<close> and was set before the document was parsed, and
  \<^verbatim>\<open>fakeApi\<close> was applied to it, before parsing, exactly when the \<^verbatim>\<open>apiFake\<close> of the
  options is truthy.
\<close>

definition stubbed :: "jsval \<Rightarrow> harness \<Rightarrow> page_context \<Rightarrow> harness \<Rightarrow> bool" where
  "stubbed options st c st' \<longleftrightarrow>
     (\<exists>af D B pre post.
        get_prop options ''apiFake'' = Inr af
      \<and> next_ref st \<le> ctx_browser c
      \<and> browsers st' (ctx_browser c) = Some B \<and> api_faked B = truthy af
      \<and> doms st' (ctx_dom c) = Some D \<and> window_browser D = Some (ctx_browser c)
      \<and> trace st' = trace st @ pre @ Parse (ctx_dom c) # post
      \<and> Parse (ctx_dom c) \<notin> set pre
      \<and> SetWindowBrowser (ctx_dom c) (ctx_browser c) \<in> set pre
      \<and> (FakeApi (ctx_browser c) \<in> set pre \<longleftrightarrow> truthy af)
      \<and> FakeApi (ctx_browser c) \<notin> set post)"

text \<open>
  Where the pages of the contexts come from. For the background \<open>background\<close> of the
  manifest: the JSDOM instance of the context was loaded from the resolved page, or, when
  there is no page, the scripts instrumented between the parsing and the evaluation of its
  document are the resolved scripts of the manifest, as \<open>buildDom\<close> passes them to the
  coverage helper. For the \<^verbatim>\<open>browser_action\<close> of the manifest: the JSDOM instance of the
  popup context was loaded from the resolved \<^verbatim>\<open>default_popup\<close>.
\<close>

definition background_paths ::
  "env \<Rightarrow> string \<Rightarrow> jsval \<Rightarrow> page_context \<Rightarrow> harness \<Rightarrow> bool" where
  "background_paths E m background cb st \<longleftrightarrow>
     (\<exists>D. doms st (ctx_dom cb) = Some D
        \<and> (if truthy (peek background ''page'')
           then \<exists>s. peek background ''page'' = JStr s
                  \<and> dom_path D = Some (path_resolve E [m, s])
           else \<exists>strs pre src post.
                  js_iterate (peek background ''scripts'') = Inr (map JStr strs)
                \<and> trace st = pre @ Parse (ctx_dom cb)
                    # map (\<lambda>s. Instrument
                             (strip_file_prefix (path_resolve E [path_join E [m, s]])))
                        strs
                    @ Eval (ctx_dom cb) src # post))"

definition popup_path ::
  "env \<Rightarrow> string \<Rightarrow> jsval \<Rightarrow> page_context \<Rightarrow> harness \<Rightarrow> bool" where
  "popup_path E m browser_action cp st \<longleftrightarrow>
     (\<exists>s D. peek browser_action ''default_popup'' = JStr s
        \<and> doms st (ctx_dom cp) = Some D
        \<and> dom_path D = Some (path_resolve E [m, s]))"

section \<open>The effects in closed form\<close>

text \<open>
  Auxiliary definitions for the proofs: the events that a callback option of the caller
  adds, the state after a \<^verbatim>\<open>beforeParse\<close> function of \<open>buildBackground\<close> or
  \<open>buildPopup\<close> has run on a window, what it means for a function to be such a
  \<^verbatim>\<open>beforeParse\<close>, and the state in which a new window exists.
\<close>

definition callback_events :: "jsval \<Rightarrow> string \<Rightarrow> event list" where
  "callback_events options k =
     (if truthy options then
        (case get_prop options k of Inr (JFun i) \<Rightarrow> [CallFunction i] | _ \<Rightarrow> [])
      else [])"

definition log_all :: "event list \<Rightarrow> harness \<Rightarrow> harness" where
  "log_all es st = st\<lparr>trace := trace st @ es\<rparr>"

definition hook_effect ::
  "bool \<Rightarrow> bool \<Rightarrow> event list \<Rightarrow> nat \<Rightarrow> nat \<Rightarrow> harness \<Rightarrow> harness" where
  "hook_effect fake wire calls b w st =
     (let st1 = set_window_browser w b st;
          st2 = (if fake then fakeApi b st1 else st1);
          st3 = (if wire then sendMessage_callsFake b st2 else st2)
      in log_all calls st3)"

definition hook_spec :: "bool \<Rightarrow> bool \<Rightarrow> event list \<Rightarrow> nat \<Rightarrow> hook \<Rightarrow> bool" where
  "hook_spec fake usewire calls b h =
     (\<forall>w s s'. h w s = Inr s' \<longrightarrow>
        s' = hook_effect fake (usewire \<and> webExtension s ''background'' \<noteq> None) calls b w s)"

definition fresh_window :: "string option \<Rightarrow> string option \<Rightarrow> harness \<Rightarrow> harness" where
  "fresh_window p html st =
     log (NewWindow (next_ref st))
       (st\<lparr>next_ref := Suc (next_ref st),
           doms := (doms st)(next_ref st \<mapsto>
             \<lparr>dom_path = p, dom_html = html, script_elements = [],
              window_browser = None, evaluated = []\<rparr>)\<rparr>)"

text \<open>
  The conditions of lines 161-163 and 173-174 as booleans, for a manifest on which they
  do not throw, and the state in which \<open>fromManifest\<close> starts to build.
\<close>

definition background_wanted :: "js_object \<Rightarrow> jsval \<Rightarrow> bool" where
  "background_wanted opts manifest \<longleftrightarrow>
      (own_prop opts ''background'' = JUndefined \<or> truthy (own_prop opts ''background''))
    \<and> truthy (peek manifest ''background'')
    \<and> (truthy (peek (peek manifest ''background'') ''page'')
       \<or> truthy (peek (peek manifest ''background'') ''scripts''))"

definition popup_wanted :: "js_object \<Rightarrow> jsval \<Rightarrow> bool" where
  "popup_wanted opts manifest \<longleftrightarrow>
      (own_prop opts ''popup'' = JUndefined \<or> truthy (own_prop opts ''popup''))
    \<and> truthy (peek manifest ''browser_action'')
    \<and> truthy (peek (peek manifest ''browser_action'') ''default_popup'')"

definition initial_state :: "env \<Rightarrow> string \<Rightarrow> harness" where
  "initial_state E m =
     log (ReadFile (path_resolve E [m, ''manifest.json''])) new_WebExtensionsJSDOM"

section \<open>Properties of the state operations\<close>

lemma log_simps [simp]:
  "next_ref (log e st) = next_ref st"
  "webExtensionsApiFake (log e st) = webExtensionsApiFake st"
  "browsers (log e st) = browsers st"
  "doms (log e st) = doms st"
  "webExtension (log e st) = webExtension st"
  "trace (log e st) = trace st @ [e]"
  by (simp_all add: log_def)

lemma update_browser_simps [simp]:
  "next_ref (update_browser b f st) = next_ref st"
  "webExtensionsApiFake (update_browser b f st) = webExtensionsApiFake st"
  "browsers (update_browser b f st) r = (if r = b then map_option f (browsers st b) else browsers st r)"
  "doms (update_browser b f st) = doms st"
  "webExtension (update_browser b f st) = webExtension st"
  "trace (update_browser b f st) = trace st"
  by (simp_all add: update_browser_def split: option.splits)

lemma update_stubs_simps [simp]:
  "next_ref (update_stubs f st) = next_ref st"
  "webExtensionsApiFake (update_stubs f st) = f (webExtensionsApiFake st)"
  "browsers (update_stubs f st) = browsers st"
  "doms (update_stubs f st) = doms st"
  "webExtension (update_stubs f st) = webExtension st"
  "trace (update_stubs f st) = trace st"
  by (simp_all add: update_stubs_def)

lemma update_dom_simps [simp]:
  "next_ref (update_dom d f st) = next_ref st"
  "webExtensionsApiFake (update_dom d f st) = webExtensionsApiFake st"
  "browsers (update_dom d f st) = browsers st"
  "doms (update_dom d f st) r = (if r = d then map_option f (doms st d) else doms st r)"
  "webExtension (update_dom d f st) = webExtension st"
  "trace (update_dom d f st) = trace st"
  by (simp_all add: update_dom_def split: option.splits)

lemma instrument_loop_Inr:
  "instrument_loop E ss acc st = Inr (src, st') \<Longrightarrow>
     (\<exists>codes. map (nyc_instrument E) (map strip_file_prefix ss) = map Some codes
        \<and> src = acc @ concat (map (\<lambda>c. c @ '';\<newline>;'') codes))
     \<and> next_ref st' = next_ref st \<and> browsers st' = browsers st \<and> doms st' = doms st
     \<and> webExtension st' = webExtension st
     \<and> trace st' = trace st @ map Instrument (map strip_file_prefix ss)
     \<and> webExtensionsApiFake st' = webExtensionsApiFake st"
proof (induction ss arbitrary: acc st)
  case Nil
  then show ?case by simp
next
  case (Cons s ss)
  from Cons.prems obtain code where
    c: "nyc_instrument E (strip_file_prefix s) = Some code" and
    r: "instrument_loop E ss ((acc @ code) @ '';\<newline>;'') (log (Instrument (strip_file_prefix s)) st) = Inr (src, st')"
    by (auto simp: Let_def split: option.splits)
  from Cons.IH[OF r] obtain codes where
    m: "map (nyc_instrument E) (map strip_file_prefix ss) = map Some codes" and
    s: "src = ((acc @ code) @ '';\<newline>;'') @ concat (map (\<lambda>c. c @ '';\<newline>;'') codes)" and
    rest: "next_ref st' = next_ref st" "browsers st' = browsers st" "doms st' = doms st"
      "webExtension st' = webExtension st"
      "trace st' = trace st @ Instrument (strip_file_prefix s) # map Instrument (map strip_file_prefix ss)"
      "webExtensionsApiFake st' = webExtensionsApiFake st"
    by auto
  have "map (nyc_instrument E) (map strip_file_prefix (s # ss)) = map Some (code # codes)"
    using c m by simp
  moreover have "src = acc @ concat (map (\<lambda>c. c @ '';\<newline>;'') (code # codes))"
    using s by simp
  ultimately show ?case using rest by (intro conjI exI[of _ "code # codes"]) simp_all
qed

section \<open>Instrumentation before evaluation\<close>

text \<open>
  Claim C4. Whenever \<open>buildDom\<close> returns, the list of scripts it processed (the \<^verbatim>\<open>src\<close>
  attributes of the script elements of the loaded file, or the list it was given) was
  handled as follows after the DOM \<open>s1\<close> was created: every script was instrumented, in
  list order, then the instrumented sources, each followed by the separator
  \<^verbatim>\<open>";\n;"\<close>, were concatenated, and this one string was evaluated once in the window
  of the DOM, after the last instrumentation.
\<close>

theorem buildDom_instruments_before_eval:
  assumes "buildDom E options html scripts st = Inr (d, st')"
  shows "\<exists>s1 ss codes.
     (if html = None \<or> html = Some []
      then JSDOM_fromFile E (opt_path options) (opt_beforeParse options) st = Inr (d, s1)
           \<and> ss = getElementsByTagName_script s1 d
      else new_JSDOM (opt_path options) html [] (opt_beforeParse options) st = Inr (d, s1)
           \<and> scripts = Some ss)
     \<and> map (nyc_instrument E) (map strip_file_prefix ss) = map Some codes
     \<and> trace st' = trace s1 @ map Instrument (map strip_file_prefix ss)
                     @ [Eval d (concat (map (\<lambda>c. c @ '';\<newline>;'') codes))]"
proof -
  from assms obtain s1 ss src s2 where
    a: "if html = None \<or> html = Some []
        then JSDOM_fromFile E (opt_path options) (opt_beforeParse options) st = Inr (d, s1)
             \<and> ss = getElementsByTagName_script s1 d
        else new_JSDOM (opt_path options) html [] (opt_beforeParse options) st = Inr (d, s1)
             \<and> scripts = Some ss" and
    l: "instrument_loop E ss [] s1 = Inr (src, s2)" and
    e: "window_eval E d src s2 = Inr st'"
    unfolding buildDom_def
    by (auto split: if_splits sum.splits option.splits prod.splits)
  from instrument_loop_Inr[OF l] obtain codes where
    m: "map (nyc_instrument E) (map strip_file_prefix ss) = map Some codes" and
    s: "src = concat (map (\<lambda>c. c @ '';\<newline>;'') codes)" and
    t: "trace s2 = trace s1 @ map Instrument (map strip_file_prefix ss)"
    by auto
  from e have "trace st' = trace s2 @ [Eval d src]"
    by (auto simp: window_eval_def Let_def split: if_splits option.splits)
  with a m s t show ?thesis by (intro exI[of _ s1] exI[of _ ss] exI[of _ codes]) simp
qed

text \<open>
  Two runs on the example, with a \<^verbatim>\<open>beforeParse\<close> that does nothing. The page
  \<open>options.html\<close> is loaded from its file: the scripts of its two script elements are
  instrumented in their order, without the prefix \<^verbatim>\<open>file://\<close>, and then the string
  \<^verbatim>\<open>"B;\n;P;\n;"\<close> is evaluated, once. A document given as text with the list of the
  two scripts in the other order gives \<^verbatim>\<open>"P;\n;B;\n;"\<close>.
\<close>

theorem buildDom_instruments_before_eval_witness:
  "(\<exists>d st'.
     buildDom (example_env example_manifest)
       \<lparr>opt_path = Some ''/ext/options.html'', opt_beforeParse = (\<lambda>w s. Inr s)\<rparr>
       None None new_WebExtensionsJSDOM = Inr (d, st')
     \<and> trace st' = [NewWindow 0, Parse 0,
                     Instrument ''/ext/background.js'', Instrument ''/ext/popup.js'',
                     Eval 0 [CHR ''B'', CHR '';'', CHR 0x0A, CHR '';'',
                             CHR ''P'', CHR '';'', CHR 0x0A, CHR '';'']])
   \<and> (\<exists>d st'.
     buildDom (example_env example_manifest)
       \<lparr>opt_path = None, opt_beforeParse = (\<lambda>w s. Inr s)\<rparr>
       (Some ''<html></html>'') (Some [''file:///ext/popup.js'', ''/ext/background.js''])
       new_WebExtensionsJSDOM = Inr (d, st')
     \<and> trace st' = [NewWindow 0, Parse 0,
                     Instrument ''/ext/popup.js'', Instrument ''/ext/background.js'',
                     Eval 0 [CHR ''P'', CHR '';'', CHR 0x0A, CHR '';'',
                             CHR ''B'', CHR '';'', CHR 0x0A, CHR '';'']])"
proof (intro conjI)
  obtain d st' where h:
    "buildDom (example_env example_manifest)
       \<lparr>opt_path = Some ''/ext/options.html'', opt_beforeParse = (\<lambda>w s. Inr s)\<rparr>
       None None new_WebExtensionsJSDOM = Inr (d, st')"
    by (simp add: buildDom_def JSDOM_fromFile_def new_JSDOM_def example_env_def
        getElementsByTagName_script_def strip_file_prefix_def window_eval_def
        new_WebExtensionsJSDOM_def Let_def)
  from buildDom_instruments_before_eval[OF h] obtain s1 ss codes where
    f: "JSDOM_fromFile (example_env example_manifest) (Some ''/ext/options.html'')
          (\<lambda>w s. Inr s) new_WebExtensionsJSDOM = Inr (d, s1)" and
    g: "ss = getElementsByTagName_script s1 d" and
    m: "map (nyc_instrument (example_env example_manifest)) (map strip_file_prefix ss)
          = map Some codes" and
    t: "trace st' = trace s1 @ map Instrument (map strip_file_prefix ss)
                     @ [Eval d (concat (map (\<lambda>c. c @ '';\<newline>;'') codes))]"
    by auto
  from f have s1: "d = 0" "trace s1 = [NewWindow 0, Parse 0]"
      "getElementsByTagName_script s1 d = [''file:///ext/background.js'', ''file:///ext/popup.js'']"
    by (auto simp: JSDOM_fromFile_def new_JSDOM_def example_env_def Let_def
        getElementsByTagName_script_def new_WebExtensionsJSDOM_def)
  from g s1 have ss: "ss = [''file:///ext/background.js'', ''file:///ext/popup.js'']" by simp
  from m ss have "codes = [''B'', ''P'']"
    by (auto simp: example_env_def strip_file_prefix_def)
  with t ss s1 h show "\<exists>d st'.
     buildDom (example_env example_manifest)
       \<lparr>opt_path = Some ''/ext/options.html'', opt_beforeParse = (\<lambda>w s. Inr s)\<rparr>
       None None new_WebExtensionsJSDOM = Inr (d, st')
     \<and> trace st' = [NewWindow 0, Parse 0,
                     Instrument ''/ext/background.js'', Instrument ''/ext/popup.js'',
                     Eval 0 [CHR ''B'', CHR '';'', CHR 0x0A, CHR '';'',
                             CHR ''P'', CHR '';'', CHR 0x0A, CHR '';'']]"
    by (auto simp: strip_file_prefix_def)
next
  obtain d st' where h:
    "buildDom (example_env example_manifest)
       \<lparr>opt_path = None, opt_beforeParse = (\<lambda>w s. Inr s)\<rparr>
       (Some ''<html></html>'') (Some [''file:///ext/popup.js'', ''/ext/background.js''])
       new_WebExtensionsJSDOM = Inr (d, st')"
    by (simp add: buildDom_def JSDOM_fromFile_def new_JSDOM_def example_env_def
        getElementsByTagName_script_def strip_file_prefix_def window_eval_def
        new_WebExtensionsJSDOM_def Let_def)
  from buildDom_instruments_before_eval[OF h]
  have "\<exists>s1 ss codes.
      new_JSDOM None (Some ''<html></html>'') [] (\<lambda>w s. Inr s) new_WebExtensionsJSDOM
          = Inr (d, s1)
    \<and> ss = [''file:///ext/popup.js'', ''/ext/background.js'']
    \<and> map (nyc_instrument (example_env example_manifest)) (map strip_file_prefix ss)
          = map Some codes
    \<and> trace st' = trace s1 @ map Instrument (map strip_file_prefix ss)
                     @ [Eval d (concat (map (\<lambda>c. c @ '';\<newline>;'') codes))]"
    by simp
  then obtain s1 ss codes where
    f: "new_JSDOM None (Some ''<html></html>'') [] (\<lambda>w s. Inr s) new_WebExtensionsJSDOM
          = Inr (d, s1)" and
    g: "ss = [''file:///ext/popup.js'', ''/ext/background.js'']" and
    m: "map (nyc_instrument (example_env example_manifest)) (map strip_file_prefix ss)
          = map Some codes" and
    t: "trace st' = trace s1 @ map Instrument (map strip_file_prefix ss)
                     @ [Eval d (concat (map (\<lambda>c. c @ '';\<newline>;'') codes))]"
    by blast
  from f have s1: "d = 0" "trace s1 = [NewWindow 0, Parse 0]"
    by (auto simp: new_JSDOM_def Let_def new_WebExtensionsJSDOM_def)
  from m g have "codes = [''P'', ''B'']"
    by (auto simp: example_env_def strip_file_prefix_def)
  with t g s1 h show "\<exists>d st'.
     buildDom (example_env example_manifest)
       \<lparr>opt_path = None, opt_beforeParse = (\<lambda>w s. Inr s)\<rparr>
       (Some ''<html></html>'') (Some [''file:///ext/popup.js'', ''/ext/background.js''])
       new_WebExtensionsJSDOM = Inr (d, st')
     \<and> trace st' = [NewWindow 0, Parse 0,
                     Instrument ''/ext/popup.js'', Instrument ''/ext/background.js'',
                     Eval 0 [CHR ''P'', CHR '';'', CHR 0x0A, CHR '';'',
                             CHR ''B'', CHR '';'', CHR 0x0A, CHR '';'']]"
    by (auto simp: strip_file_prefix_def)
qed

section \<open>The effect of building a context\<close>

lemma log_all_simps [simp]:
  "next_ref (log_all es st) = next_ref st"
  "webExtensionsApiFake (log_all es st) = webExtensionsApiFake st"
  "browsers (log_all es st) = browsers st"
  "doms (log_all es st) = doms st"
  "webExtension (log_all es st) = webExtension st"
  "trace (log_all es st) = trace st @ es"
  "log_all [] st = st"
  by (simp_all add: log_all_def)

lemma call_option_Inr:
  "call_option options k st = Inr st' \<Longrightarrow> st' = log_all (callback_events options k) st"
  by (cases "get_prop options k")
     (auto simp: call_option_def callback_events_def log_all_def log_def
           split: if_splits jsval.splits)

lemma background_beforeParse_Inr:
  assumes "background_beforeParse b options w st = Inr st'"
  shows "\<exists>af. get_prop options ''apiFake'' = Inr af
           \<and> st' = hook_effect (truthy af) False (callback_events options ''beforeParse'') b w st"
proof -
  from assms obtain af where
    a: "get_prop options ''apiFake'' = Inr af" and
    c: "call_option options ''beforeParse''
          (if truthy af then fakeApi b (set_window_browser w b st)
           else set_window_browser w b st) = Inr st'"
    by (auto simp: background_beforeParse_def Let_def split: sum.splits)
  from call_option_Inr[OF c] a show ?thesis
    by (auto simp: hook_effect_def Let_def)
qed

lemma popup_beforeParse_Inr:
  assumes "popup_beforeParse b options w st = Inr st'"
  shows "\<exists>af. get_prop options ''apiFake'' = Inr af
           \<and> st' = hook_effect (truthy af) (webExtension st ''background'' \<noteq> None)
                    (callback_events options ''beforeParse'') b w st"
proof -
  let ?s1 = "set_window_browser w b st"
  from assms obtain af where
    a: "get_prop options ''apiFake'' = Inr af" and
    c: "call_option options ''beforeParse''
          (let st2 = (if truthy af then fakeApi b ?s1 else ?s1)
           in if webExtension st2 ''background'' \<noteq> None
              then sendMessage_callsFake b st2
              else st2) = Inr st'"
    by (auto simp: popup_beforeParse_def Let_def split: sum.splits)
  have w: "webExtension (if truthy af then fakeApi b ?s1 else ?s1) = webExtension st"
    by (simp add: fakeApi_def set_window_browser_def)
  from call_option_Inr[OF c] a w show ?thesis
    by (auto simp: hook_effect_def Let_def)
qed

lemma hook_spec_background:
  "hook_spec (truthy af) False (callback_events options ''beforeParse'') b
     (background_beforeParse b options)" if "get_prop options ''apiFake'' = Inr af"
  using that background_beforeParse_Inr[of b options]
  by (auto simp: hook_spec_def)

lemma hook_spec_popup:
  "hook_spec (truthy af) True (callback_events options ''beforeParse'') b
     (popup_beforeParse b options)" if "get_prop options ''apiFake'' = Inr af"
  using that popup_beforeParse_Inr[of b options]
  by (auto simp: hook_spec_def)

lemma hook_effect_simps [simp]:
  "next_ref (hook_effect f wr cs b w st) = next_ref st"
  "webExtension (hook_effect f wr cs b w st) = webExtension st"
  "doms (hook_effect f wr cs b w st) r =
     (if r = w then map_option (\<lambda>D. D\<lparr>window_browser := Some b\<rparr>) (doms st w) else doms st r)"
  "trace (hook_effect f wr cs b w st) =
     trace st @ SetWindowBrowser w b # (if f then [FakeApi b] else [])
       @ (if wr then [CallsFake b] else []) @ cs"
  "stub_faked (webExtensionsApiFake (hook_effect f wr cs b w st)) =
     (f \<or> stub_faked (webExtensionsApiFake st))"
  "stub_forwards (webExtensionsApiFake (hook_effect f wr cs b w st)) =
     (wr \<or> stub_forwards (webExtensionsApiFake st))"
  "stub_listeners (webExtensionsApiFake (hook_effect f wr cs b w st)) =
     stub_listeners (webExtensionsApiFake st)"
  by (simp_all add: hook_effect_def fakeApi_def sendMessage_callsFake_def
      set_window_browser_def Let_def)

lemma hook_effect_browsers:
  "browsers (hook_effect f wr cs b w st) r =
     (if r = b
      then map_option (\<lambda>B. B\<lparr>api_faked := (f \<or> api_faked B),
                              sendMessage_forwards := (wr \<or> sendMessage_forwards B)\<rparr>)
             (browsers st b)
      else browsers st r)"
  by (cases "browsers st b")
     (auto simp: hook_effect_def fakeApi_def sendMessage_callsFake_def
        set_window_browser_def Let_def)

lemma fresh_window_simps [simp]:
  "next_ref (fresh_window p html st) = Suc (next_ref st)"
  "webExtensionsApiFake (fresh_window p html st) = webExtensionsApiFake st"
  "browsers (fresh_window p html st) = browsers st"
  "doms (fresh_window p html st) r =
     (if r = next_ref st
      then Some \<lparr>dom_path = p, dom_html = html, script_elements = [],
                 window_browser = None, evaluated = []\<rparr>
      else doms st r)"
  "webExtension (fresh_window p html st) = webExtension st"
  "trace (fresh_window p html st) = trace st @ [NewWindow (next_ref st)]"
  by (simp_all add: fresh_window_def)

lemma new_JSDOM_hook:
  assumes "new_JSDOM p html srcs h st = Inr (d, s1)" and "hook_spec f uw cs b h"
  shows "d = next_ref st
       \<and> s1 = log (Parse d) (update_dom d (\<lambda>D. D\<lparr>script_elements := srcs\<rparr>)
                (hook_effect f (uw \<and> webExtension st ''background'' \<noteq> None) cs b d
                   (fresh_window p html st)))"
proof -
  from assms(1) obtain x where
    x: "h (next_ref st) (fresh_window p html st) = Inr x" and
    d: "d = next_ref st" and
    s1: "s1 = log (Parse d) (update_dom d (\<lambda>D. D\<lparr>script_elements := srcs\<rparr>) x)"
    by (auto simp: new_JSDOM_def fresh_window_def Let_def split: sum.splits)
  from assms(2) x have
    "x = hook_effect f (uw \<and> webExtension (fresh_window p html st) ''background'' \<noteq> None)
           cs b (next_ref st) (fresh_window p html st)"
    unfolding hook_spec_def by blast
  with d s1 show ?thesis by simp
qed

lemma window_eval_Inr:
  assumes "window_eval E d src st = Inr st'" "doms st d = Some D" "window_browser D = Some b"
  shows "\<not> script_throws E src
       \<and> st' = log (Eval d src)
                (update_stubs
                   (\<lambda>S. S\<lparr>stub_listeners := stub_listeners S @ script_listeners E src\<rparr>)
                   (update_dom d (\<lambda>D. D\<lparr>evaluated := evaluated D @ [src]\<rparr>) st))"
  using assms
  by (auto simp: window_eval_def Let_def split: if_splits)

lemma buildDom_cases:
  assumes "buildDom E \<lparr>opt_path = p, opt_beforeParse = h\<rparr> html scripts st = Inr (d, st')"
  shows "\<exists>s1 ss src s2.
      (if html = None \<or> html = Some []
       then (\<exists>file. p = Some file \<and> document_scripts E file = Some ss
               \<and> new_JSDOM p None ss h st = Inr (d, s1))
            \<and> instrument_loop E (getElementsByTagName_script s1 d) [] s1 = Inr (src, s2)
       else new_JSDOM p html [] h st = Inr (d, s1) \<and> scripts = Some ss
            \<and> instrument_loop E ss [] s1 = Inr (src, s2))
    \<and> window_eval E d src s2 = Inr st'"
  using assms unfolding buildDom_def JSDOM_fromFile_def
  by (auto split: if_splits sum.splits option.splits prod.splits)

lemma buildDom_tail:
  assumes n: "new_JSDOM p html0 srcs h st = Inr (d, s1)"
      and h: "hook_spec f uw cs b h"
      and l: "instrument_loop E ss [] s1 = Inr (src, s2)"
      and e: "window_eval E d src s2 = Inr st'"
      and b: "browsers st b = Some B0" "b < next_ref st"
  shows "d = next_ref st" "next_ref st' = Suc d" "webExtension st' = webExtension st"
    "\<And>r. r \<noteq> d \<Longrightarrow> doms st' r = doms st r"
    "doms st' d = Some \<lparr>dom_path = p, dom_html = html0, script_elements = srcs,
                         window_browser = Some b, evaluated = [src]\<rparr>"
    "\<And>r. r \<noteq> b \<Longrightarrow> browsers st' r = browsers st r"
    "browsers st' b = Some (B0\<lparr>
          api_faked := (f \<or> api_faked B0),
          sendMessage_forwards :=
            ((uw \<and> webExtension st ''background'' \<noteq> None) \<or> sendMessage_forwards B0)\<rparr>)"
    "trace st' = trace st @ NewWindow d # SetWindowBrowser d b
          # (if f then [FakeApi b] else [])
          @ (if uw \<and> webExtension st ''background'' \<noteq> None then [CallsFake b] else [])
          @ cs @ Parse d # map Instrument (map strip_file_prefix ss) @ [Eval d src]"
    "getElementsByTagName_script s1 d = srcs"
    "\<exists>codes. map (nyc_instrument E) (map strip_file_prefix ss) = map Some codes
        \<and> src = concat (map (\<lambda>c. c @ '';\<newline>;'') codes)"
    "stub_faked (webExtensionsApiFake st') = (f \<or> stub_faked (webExtensionsApiFake st))"
    "stub_forwards (webExtensionsApiFake st') =
       ((uw \<and> webExtension st ''background'' \<noteq> None)
        \<or> stub_forwards (webExtensionsApiFake st))"
    "stub_listeners (webExtensionsApiFake st') =
       stub_listeners (webExtensionsApiFake st) @ script_listeners E src"
proof -
  let ?wire = "uw \<and> webExtension st ''background'' \<noteq> None"
  let ?D = "\<lparr>dom_path = p, dom_html = html0, script_elements = srcs,
             window_browser = Some b, evaluated = []\<rparr>"
  from new_JSDOM_hook[OF n h] have d: "d = next_ref st" and
    s1: "s1 = log (Parse d) (update_dom d (\<lambda>D. D\<lparr>script_elements := srcs\<rparr>)
                (hook_effect f ?wire cs b d (fresh_window p html0 st)))"
    by auto
  show "d = next_ref st" by (rule d)
  from b d have bd: "b \<noteq> d" by simp
  have s1d: "doms s1 d = Some ?D" by (simp add: s1 d)
  show "getElementsByTagName_script s1 d = srcs"
    by (simp add: getElementsByTagName_script_def s1d)
  from instrument_loop_Inr[OF l] have
    s2: "next_ref s2 = next_ref s1" "browsers s2 = browsers s1" "doms s2 = doms s1"
      "webExtension s2 = webExtension s1"
      "trace s2 = trace s1 @ map Instrument (map strip_file_prefix ss)"
      "webExtensionsApiFake s2 = webExtensionsApiFake s1"
    and c: "\<exists>codes. map (nyc_instrument E) (map strip_file_prefix ss) = map Some codes
        \<and> src = concat (map (\<lambda>c. c @ '';\<newline>;'') codes)"
    by auto
  show "\<exists>codes. map (nyc_instrument E) (map strip_file_prefix ss) = map Some codes
        \<and> src = concat (map (\<lambda>c. c @ '';\<newline>;'') codes)" by (rule c)
  have s2d: "doms s2 d = Some ?D" by (simp add: s2 s1d)
  from window_eval_Inr[OF e s2d] have
    st': "st' = log (Eval d src)
                (update_stubs
                   (\<lambda>S. S\<lparr>stub_listeners := stub_listeners S @ script_listeners E src\<rparr>)
                   (update_dom d (\<lambda>D. D\<lparr>evaluated := evaluated D @ [src]\<rparr>) s2))"
    by simp
  show "next_ref st' = Suc d" by (simp add: st' s2 s1 d)
  show "webExtension st' = webExtension st" by (simp add: st' s2 s1)
  show "doms st' r = doms st r" if "r \<noteq> d" for r
    using that by (simp add: st' s2 s1 d)
  show "doms st' d = Some \<lparr>dom_path = p, dom_html = html0, script_elements = srcs,
                         window_browser = Some b, evaluated = [src]\<rparr>"
    by (simp add: st' s2d)
  show "browsers st' r = browsers st r" if "r \<noteq> b" for r
    using that by (simp add: st' s2 s1 hook_effect_browsers)
  show "browsers st' b = Some (B0\<lparr>
          api_faked := (f \<or> api_faked B0),
          sendMessage_forwards :=
            ((uw \<and> webExtension st ''background'' \<noteq> None) \<or> sendMessage_forwards B0)\<rparr>)"
    using b by (simp add: st' s2 s1 hook_effect_browsers)
  show "trace st' = trace st @ NewWindow d # SetWindowBrowser d b
          # (if f then [FakeApi b] else [])
          @ (if uw \<and> webExtension st ''background'' \<noteq> None then [CallsFake b] else [])
          @ cs @ Parse d # map Instrument (map strip_file_prefix ss) @ [Eval d src]"
    by (simp add: st' s2 s1 d)
  show "stub_faked (webExtensionsApiFake st') = (f \<or> stub_faked (webExtensionsApiFake st))"
    by (simp add: st' s2 s1)
  show "stub_forwards (webExtensionsApiFake st') =
       ((uw \<and> webExtension st ''background'' \<noteq> None)
        \<or> stub_forwards (webExtensionsApiFake st))"
    by (simp add: st' s2 s1)
  show "stub_listeners (webExtensionsApiFake st') =
       stub_listeners (webExtensionsApiFake st) @ script_listeners E src"
    by (simp add: st' s2 s1)
qed

lemma new_JSDOM_runs_hook:
  "new_JSDOM p html srcs h st = Inr (d, s1) \<Longrightarrow> \<exists>s s'. h d s = Inr s'"
  by (auto simp: new_JSDOM_def Let_def split: sum.splits)

lemma createBrowser_simps [simp]:
  "fst (createBrowser st) = next_ref st"
  "webExtensionsApiFake (snd (createBrowser st)) = webExtensionsApiFake st"
  "next_ref (snd (createBrowser st)) = Suc (next_ref st)"
  "browsers (snd (createBrowser st)) r =
     (if r = next_ref st
      then Some \<lparr>contextMenus_aliased = True, api_faked = False,
                 sendMessage_forwards = False\<rparr>
      else browsers st r)"
  "doms (snd (createBrowser st)) = doms st"
  "webExtension (snd (createBrowser st)) = webExtension st"
  "trace (snd (createBrowser st)) = trace st @ [CreateBrowser (next_ref st)]"
  by (simp_all add: createBrowser_def Let_def)

lemma buildPopup_Inr:
  assumes run: "buildPopup E popupPath options0 st = Inr (c, st')"
  obtains af ss codes src where
    "get_prop (default_options options0) ''apiFake'' = Inr af"
    "c = \<lparr>ctx_browser = next_ref st, ctx_dom = Suc (next_ref st),
          ctx_document = Suc (next_ref st), ctx_helper = True\<rparr>"
    "next_ref st' = Suc (Suc (next_ref st))"
    "webExtension st' = (webExtension st)(''popup'' \<mapsto> c)"
    "\<And>r. r \<noteq> Suc (next_ref st) \<Longrightarrow> doms st' r = doms st r"
    "doms st' (Suc (next_ref st)) =
       Some \<lparr>dom_path = Some popupPath, dom_html = None, script_elements = ss,
             window_browser = Some (next_ref st), evaluated = [src]\<rparr>"
    "\<And>r. r \<noteq> next_ref st \<Longrightarrow> browsers st' r = browsers st r"
    "browsers st' (next_ref st) =
       Some \<lparr>contextMenus_aliased = True, api_faked = truthy af,
             sendMessage_forwards = (webExtension st ''background'' \<noteq> None)\<rparr>"
    "trace st' = trace st @ CreateBrowser (next_ref st) # NewWindow (Suc (next_ref st))
       # SetWindowBrowser (Suc (next_ref st)) (next_ref st)
       # (if truthy af then [FakeApi (next_ref st)] else [])
       @ (if webExtension st ''background'' \<noteq> None then [CallsFake (next_ref st)] else [])
       @ callback_events (default_options options0) ''beforeParse''
       @ Parse (Suc (next_ref st)) # map Instrument (map strip_file_prefix ss)
       @ Eval (Suc (next_ref st)) src
       # callback_events (default_options options0) ''afterBuild''"
    "document_scripts E popupPath = Some ss"
    "map (nyc_instrument E) (map strip_file_prefix ss) = map Some codes"
    "src = concat (map (\<lambda>c. c @ '';\<newline>;'') codes)"
    "stub_faked (webExtensionsApiFake st')
       = (truthy af \<or> stub_faked (webExtensionsApiFake st))"
    "stub_forwards (webExtensionsApiFake st')
       = (webExtension st ''background'' \<noteq> None \<or> stub_forwards (webExtensionsApiFake st))"
    "stub_listeners (webExtensionsApiFake st')
       = stub_listeners (webExtensionsApiFake st) @ script_listeners E src"
proof -
  let ?o = "default_options options0"
  let ?b = "next_ref st"
  let ?st1 = "snd (createBrowser st)"
  from run obtain d st2 st4 where
    bd: "buildDom E \<lparr>opt_path = Some popupPath, opt_beforeParse = popup_beforeParse ?b ?o\<rparr>
           None None ?st1 = Inr (d, st2)" and
    c: "c = \<lparr>ctx_browser = ?b, ctx_dom = d, ctx_document = d, ctx_helper = True\<rparr>" and
    ab: "call_option ?o ''afterBuild''
           (st2\<lparr>webExtension := (webExtension st2)(''popup'' \<mapsto> c)\<rparr>) = Inr st4" and
    st': "st' = st4"
    by (auto simp: buildPopup_def Let_def createBrowser_def split: sum.splits prod.splits)
  from buildDom_cases[OF bd] obtain s1 ss src s2 where
    n: "new_JSDOM (Some popupPath) None ss (popup_beforeParse ?b ?o) ?st1 = Inr (d, s1)" and
    ds: "document_scripts E popupPath = Some ss" and
    l: "instrument_loop E (getElementsByTagName_script s1 d) [] s1 = Inr (src, s2)" and
    e: "window_eval E d src s2 = Inr st2"
    by auto
  from new_JSDOM_runs_hook[OF n] popup_beforeParse_Inr obtain af where
    af: "get_prop ?o ''apiFake'' = Inr af" by blast
  note h = hook_spec_popup[OF af, of ?b]
  have b: "browsers ?st1 ?b = Some \<lparr>contextMenus_aliased = True, api_faked = False,
                 sendMessage_forwards = False\<rparr>"
       "?b < next_ref ?st1" by simp_all
  note t = buildDom_tail[OF n h l e b]
  from t(9) have g: "getElementsByTagName_script s1 d = ss" .
  from t(1) have d: "d = Suc ?b" by simp
  from call_option_Inr[OF ab] st' have
    s4: "st' = log_all (callback_events ?o ''afterBuild'')
                 (st2\<lparr>webExtension := (webExtension st2)(''popup'' \<mapsto> c)\<rparr>)" by simp
  from t(10) obtain codes where
    m: "map (nyc_instrument E) (map strip_file_prefix ss) = map Some codes" and
    src: "src = concat (map (\<lambda>c. c @ '';\<newline>;'') codes)"
    unfolding g by blast
  show thesis
  proof (rule that[OF af _ _ _ _ _ _ _ _ ds m src])
    show "c = \<lparr>ctx_browser = ?b, ctx_dom = Suc ?b, ctx_document = Suc ?b, ctx_helper = True\<rparr>"
      using c d by simp
    show "next_ref st' = Suc (Suc ?b)" using t(2) d by (simp add: s4)
    show "webExtension st' = (webExtension st)(''popup'' \<mapsto> c)"
      using t(3) by (simp add: s4)
    show "doms st' r = doms st r" if "r \<noteq> Suc ?b" for r
      using t(4)[of r] that d by (simp add: s4)
    show "doms st' (Suc ?b) =
       Some \<lparr>dom_path = Some popupPath, dom_html = None, script_elements = ss,
             window_browser = Some ?b, evaluated = [src]\<rparr>"
      using t(5) d by (simp add: s4)
    show "browsers st' r = browsers st r" if "r \<noteq> ?b" for r
      using t(6)[of r] that by (simp add: s4)
    show "browsers st' ?b =
       Some \<lparr>contextMenus_aliased = True, api_faked = truthy af,
             sendMessage_forwards = (webExtension st ''background'' \<noteq> None)\<rparr>"
      using t(7) by (simp add: s4)
    show "trace st' = trace st @ CreateBrowser ?b # NewWindow (Suc ?b)
       # SetWindowBrowser (Suc ?b) ?b
       # (if truthy af then [FakeApi ?b] else [])
       @ (if webExtension st ''background'' \<noteq> None then [CallsFake ?b] else [])
       @ callback_events ?o ''beforeParse''
       @ Parse (Suc ?b) # map Instrument (map strip_file_prefix ss)
       @ Eval (Suc ?b) src # callback_events ?o ''afterBuild''"
      using t(8) d g by (simp add: s4)
    show "stub_faked (webExtensionsApiFake st')
       = (truthy af \<or> stub_faked (webExtensionsApiFake st))"
      using t(11) by (simp add: s4)
    show "stub_forwards (webExtensionsApiFake st')
       = (webExtension st ''background'' \<noteq> None \<or> stub_forwards (webExtensionsApiFake st))"
      using t(12) by (simp add: s4)
    show "stub_listeners (webExtensionsApiFake st')
       = stub_listeners (webExtensionsApiFake st) @ script_listeners E src"
      using t(13) by (simp add: s4)
  qed
qed

lemma resolve_scripts_Inr:
  "resolve_scripts E m items = Inr ps \<Longrightarrow>
     \<exists>strs. items = map JStr strs
        \<and> ps = map (\<lambda>s. path_resolve E [path_join E [m, s]]) strs"
proof (induction items arbitrary: ps)
  case Nil
  then show ?case by simp
next
  case (Cons v vs)
  from Cons.prems obtain s ps' where
    v: "v = JStr s" and r: "resolve_scripts E m vs = Inr ps'" and
    ps: "ps = path_resolve E [path_join E [m, s]] # ps'"
    by (cases v) (auto simp: js_path_join_def split: sum.splits)
  from Cons.IH[OF r] obtain strs where
    "vs = map JStr strs" "ps' = map (\<lambda>s. path_resolve E [path_join E [m, s]]) strs"
    by blast
  with v ps show ?case by (intro exI[of _ "s # strs"]) simp
qed

lemma background_dom_Inr:
  assumes "background_dom E background m h st = Inr (Some d, st')"
  obtains s where
    "get_prop background ''page'' = Inr (JStr s)" "s \<noteq> []"
    "buildDom E \<lparr>opt_path = Some (path_resolve E [m, s]), opt_beforeParse = h\<rparr>
       None None st = Inr (d, st')"
  | page scripts strs where
    "get_prop background ''page'' = Inr page" "\<not> truthy page"
    "get_prop background ''scripts'' = Inr scripts" "truthy scripts"
    "js_iterate scripts = Inr (map JStr strs)"
    "buildDom E \<lparr>opt_path = None, opt_beforeParse = h\<rparr> (Some background_html)
       (Some (map (\<lambda>s. path_resolve E [path_join E [m, s]]) strs)) st = Inr (d, st')"
proof -
  from assms obtain page where p: "get_prop background ''page'' = Inr page"
    by (auto simp: background_dom_def split: sum.splits)
  show thesis
  proof (cases "truthy page")
    case True
    with assms p obtain pth where
      r: "js_path_resolve E [JStr m, page] = Inr pth" and
      b: "buildDom E \<lparr>opt_path = Some pth, opt_beforeParse = h\<rparr> None None st = Inr (d, st')"
      by (auto simp: background_dom_def split: sum.splits)
    from r obtain s where "page = JStr s" "pth = path_resolve E [m, s]"
      by (cases page) (auto simp: js_path_resolve_def)
    with True p b that(1) show thesis by auto
  next
    case False
    with assms p obtain scripts items ps where
      s: "get_prop background ''scripts'' = Inr scripts" "truthy scripts"
         "js_iterate scripts = Inr items" "resolve_scripts E m items = Inr ps" and
      b: "buildDom E \<lparr>opt_path = None, opt_beforeParse = h\<rparr> (Some background_html)
            (Some ps) st = Inr (d, st')"
      by (auto simp: background_dom_def split: sum.splits if_splits)
    from resolve_scripts_Inr[OF s(4)] obtain strs where
      "items = map JStr strs" "ps = map (\<lambda>s. path_resolve E [path_join E [m, s]]) strs"
      by blast
    with False p s b that(2) show thesis by auto
  qed
qed

lemma buildBackground_Inr:
  assumes run: "buildBackground E background m options0 st = Inr (c, st')"
  obtains af pth html0 srcs ss codes src where
    "get_prop (default_options options0) ''apiFake'' = Inr af"
    "c = \<lparr>ctx_browser = next_ref st, ctx_dom = Suc (next_ref st),
          ctx_document = Suc (next_ref st), ctx_helper = False\<rparr>"
    "next_ref st' = Suc (Suc (next_ref st))"
    "webExtension st' = (webExtension st)(''background'' \<mapsto> c)"
    "\<And>r. r \<noteq> Suc (next_ref st) \<Longrightarrow> doms st' r = doms st r"
    "doms st' (Suc (next_ref st)) =
       Some \<lparr>dom_path = pth, dom_html = html0, script_elements = srcs,
             window_browser = Some (next_ref st), evaluated = [src]\<rparr>"
    "\<And>r. r \<noteq> next_ref st \<Longrightarrow> browsers st' r = browsers st r"
    "browsers st' (next_ref st) =
       Some \<lparr>contextMenus_aliased = True, api_faked = truthy af,
             sendMessage_forwards = False\<rparr>"
    "trace st' = trace st @ CreateBrowser (next_ref st) # NewWindow (Suc (next_ref st))
       # SetWindowBrowser (Suc (next_ref st)) (next_ref st)
       # (if truthy af then [FakeApi (next_ref st)] else [])
       @ callback_events (default_options options0) ''beforeParse''
       @ Parse (Suc (next_ref st)) # map Instrument (map strip_file_prefix ss)
       @ Eval (Suc (next_ref st)) src
       # callback_events (default_options options0) ''afterBuild''"
    "(\<exists>s. get_prop background ''page'' = Inr (JStr s) \<and> s \<noteq> []
          \<and> pth = Some (path_resolve E [m, s]) \<and> html0 = None
          \<and> document_scripts E (path_resolve E [m, s]) = Some ss \<and> srcs = ss)
     \<or> (\<exists>page scripts strs. get_prop background ''page'' = Inr page \<and> \<not> truthy page
          \<and> get_prop background ''scripts'' = Inr scripts \<and> truthy scripts
          \<and> js_iterate scripts = Inr (map JStr strs)
          \<and> ss = map (\<lambda>s. path_resolve E [path_join E [m, s]]) strs
          \<and> pth = None \<and> html0 = Some background_html \<and> srcs = [])"
    "map (nyc_instrument E) (map strip_file_prefix ss) = map Some codes"
    "src = concat (map (\<lambda>c. c @ '';\<newline>;'') codes)"
    "stub_faked (webExtensionsApiFake st')
       = (truthy af \<or> stub_faked (webExtensionsApiFake st))"
    "stub_forwards (webExtensionsApiFake st') = stub_forwards (webExtensionsApiFake st)"
    "stub_listeners (webExtensionsApiFake st')
       = stub_listeners (webExtensionsApiFake st) @ script_listeners E src"
proof -
  let ?o = "default_options options0"
  let ?b = "next_ref st"
  let ?st1 = "snd (createBrowser st)"
  let ?h = "background_beforeParse ?b ?o"
  from run obtain d st2 st4 where
    bd: "background_dom E background m ?h ?st1 = Inr (Some d, st2)" and
    c: "c = \<lparr>ctx_browser = ?b, ctx_dom = d, ctx_document = d, ctx_helper = False\<rparr>" and
    ab: "call_option ?o ''afterBuild''
           (st2\<lparr>webExtension := (webExtension st2)(''background'' \<mapsto> c)\<rparr>) = Inr st4" and
    st': "st' = st4"
    by (auto simp: buildBackground_def Let_def createBrowser_def
        split: sum.splits prod.splits option.splits)
  from call_option_Inr[OF ab] st' have
    s4: "st' = log_all (callback_events ?o ''afterBuild'')
                 (st2\<lparr>webExtension := (webExtension st2)(''background'' \<mapsto> c)\<rparr>)" by simp
  have b: "browsers ?st1 ?b = Some \<lparr>contextMenus_aliased = True, api_faked = False,
                 sendMessage_forwards = False\<rparr>"
       "?b < next_ref ?st1" by simp_all
  from bd obtain pth html0 scripts0 srcs ss s1 src s2 where
    n: "new_JSDOM pth html0 srcs ?h ?st1 = Inr (d, s1)" and
    l: "instrument_loop E ss [] s1 = Inr (src, s2)" and
    e: "window_eval E d src s2 = Inr st2" and
    descr: "(\<exists>s. get_prop background ''page'' = Inr (JStr s) \<and> s \<noteq> []
          \<and> pth = Some (path_resolve E [m, s]) \<and> html0 = None
          \<and> document_scripts E (path_resolve E [m, s]) = Some ss \<and> srcs = ss)
     \<or> (\<exists>page scripts strs. get_prop background ''page'' = Inr page \<and> \<not> truthy page
          \<and> get_prop background ''scripts'' = Inr scripts \<and> truthy scripts
          \<and> js_iterate scripts = Inr (map JStr strs)
          \<and> ss = map (\<lambda>s. path_resolve E [path_join E [m, s]]) strs
          \<and> pth = None \<and> html0 = Some background_html \<and> srcs = [])"
  proof (cases rule: background_dom_Inr)
    case (1 s)
    from buildDom_cases[OF 1(3)] obtain s1 ss src s2 where
      n: "new_JSDOM (Some (path_resolve E [m, s])) None ss ?h ?st1 = Inr (d, s1)" and
      ds: "document_scripts E (path_resolve E [m, s]) = Some ss" and
      l: "instrument_loop E (getElementsByTagName_script s1 d) [] s1 = Inr (src, s2)" and
      e: "window_eval E d src s2 = Inr st2"
      by auto
    from new_JSDOM_runs_hook[OF n] background_beforeParse_Inr obtain af where
      af: "get_prop ?o ''apiFake'' = Inr af" by blast
    from buildDom_tail(9)[OF n hook_spec_background[OF af, of ?b] l e b]
    have "getElementsByTagName_script s1 d = ss" .
    with l have "instrument_loop E ss [] s1 = Inr (src, s2)" by simp
    with n ds e 1 that show thesis by blast
  next
    case (2 page scripts strs)
    from buildDom_cases[OF 2(6)] obtain s1 src s2 where
      n: "new_JSDOM None (Some background_html) [] ?h ?st1 = Inr (d, s1)" and
      l: "instrument_loop E (map (\<lambda>s. path_resolve E [path_join E [m, s]]) strs) [] s1
            = Inr (src, s2)" and
      e: "window_eval E d src s2 = Inr st2"
      by (auto simp: background_html_def)
    with 2 that show thesis by blast
  qed
  from new_JSDOM_runs_hook[OF n] background_beforeParse_Inr obtain af where
    af: "get_prop ?o ''apiFake'' = Inr af" by blast
  note t = buildDom_tail[OF n hook_spec_background[OF af, of ?b] l e b]
  from t(1) have d: "d = Suc ?b" by simp
  from t(10) obtain codes where
    m: "map (nyc_instrument E) (map strip_file_prefix ss) = map Some codes" and
    src: "src = concat (map (\<lambda>c. c @ '';\<newline>;'') codes)"
    by blast
  show thesis
  proof (rule that[OF af _ _ _ _ _ _ _ _ descr m src])
    show "c = \<lparr>ctx_browser = ?b, ctx_dom = Suc ?b, ctx_document = Suc ?b, ctx_helper = False\<rparr>"
      using c d by simp
    show "next_ref st' = Suc (Suc ?b)" using t(2) d by (simp add: s4)
    show "webExtension st' = (webExtension st)(''background'' \<mapsto> c)"
      using t(3) by (simp add: s4)
    show "doms st' r = doms st r" if "r \<noteq> Suc ?b" for r
      using t(4)[of r] that d by (simp add: s4)
    show "doms st' (Suc ?b) =
       Some \<lparr>dom_path = pth, dom_html = html0, script_elements = srcs,
             window_browser = Some ?b, evaluated = [src]\<rparr>"
      using t(5) d by (simp add: s4)
    show "browsers st' r = browsers st r" if "r \<noteq> ?b" for r
      using t(6)[of r] that by (simp add: s4)
    show "browsers st' ?b =
       Some \<lparr>contextMenus_aliased = True, api_faked = truthy af,
             sendMessage_forwards = False\<rparr>"
      using t(7) by (simp add: s4)
    show "trace st' = trace st @ CreateBrowser ?b # NewWindow (Suc ?b)
       # SetWindowBrowser (Suc ?b) ?b
       # (if truthy af then [FakeApi ?b] else [])
       @ callback_events ?o ''beforeParse''
       @ Parse (Suc ?b) # map Instrument (map strip_file_prefix ss)
       @ Eval (Suc ?b) src # callback_events ?o ''afterBuild''"
      using t(8) d by (simp add: s4)
    show "stub_faked (webExtensionsApiFake st')
       = (truthy af \<or> stub_faked (webExtensionsApiFake st))"
      using t(11) by (simp add: s4)
    show "stub_forwards (webExtensionsApiFake st') = stub_forwards (webExtensionsApiFake st)"
      using t(12) by (simp add: s4)
    show "stub_listeners (webExtensionsApiFake st')
       = stub_listeners (webExtensionsApiFake st) @ script_listeners E src"
      using t(13) by (simp add: s4)
  qed
qed

section \<open>The structure of a run of fromManifest\<close>

lemma typeof_undefined [simp]: "typeof v = ''undefined'' \<longleftrightarrow> v = JUndefined"
  by (cases v) simp_all

lemma own_prop_Nil [simp]: "own_prop [] k = JUndefined"
  by (simp add: own_prop_def)

lemma own_prop_Cons [simp]:
  "own_prop ((k', v) # fs) k = (if k = k' then v else own_prop fs k)"
  by (simp add: own_prop_def)

lemma own_prop_set_field:
  "own_prop (set_field k v fs) k' = (if k' = k then v else own_prop fs k')"
  by (induction fs) (auto simp: own_prop_def)

lemma prepare_option_Inr:
  assumes "prepare_option k opts = Inr opts1" "k \<noteq> ''apiFake''"
  shows "own_prop opts1 k' =
           (if k' = k then prepared_option (own_prop opts k) (own_prop opts ''apiFake'')
            else own_prop opts k')"
  using assms
  by (auto simp: prepare_option_def prepared_option_def Let_def own_prop_set_field
      split: if_splits sum.splits)

lemma fromManifest_Inr:
  assumes "fromManifest E m opts = (opts', Inr (res, st))"
  obtains contents manifest opts1 res1 st1 where
    "readFileSync E (path_resolve E [m, ''manifest.json'']) = Some contents"
    "JSON_parse E contents = Some manifest"
    "load_background E m manifest opts
       (log (ReadFile (path_resolve E [m, ''manifest.json''])) new_WebExtensionsJSDOM)
       = (opts1, Inr (res1, st1))"
    "load_popup E m manifest opts1 res1 st1 = (opts', Inr (res, st))"
  using assms unfolding fromManifest_def Let_def
  by (auto split: option.splits prod.splits sum.splits)

lemma load_background_Inr:
  assumes "load_background E m manifest opts st = (opts1, Inr (res1, st1))"
  obtains (skip) "background_guard opts manifest = Inr False" "opts1 = opts"
      "res1 = Map.empty" "st1 = st"
  | (build) mb c where "background_guard opts manifest = Inr True"
      "prepare_option ''background'' opts = Inr opts1"
      "get_prop manifest ''background'' = Inr mb"
      "buildBackground E mb m (own_prop opts1 ''background'') st = Inr (c, st1)"
      "res1 = Map.empty(''background'' \<mapsto> c)"
  using assms unfolding load_background_def
  by (auto split: sum.splits bool.splits prod.splits)

lemma load_popup_Inr:
  assumes "load_popup E m manifest opts res st = (opts1, Inr (res1, st1))"
  obtains (skip) "popup_guard opts manifest = Inr False" "opts1 = opts"
      "res1 = res" "st1 = st"
  | (build) ba s c where "popup_guard opts manifest = Inr True"
      "get_prop manifest ''browser_action'' = Inr ba"
      "get_prop ba ''default_popup'' = Inr (JStr s)"
      "prepare_option ''popup'' opts = Inr opts1"
      "buildPopup E (path_resolve E [m, s]) (own_prop opts1 ''popup'') st = Inr (c, st1)"
      "res1 = res(''popup'' \<mapsto> c)"
proof -
  from assms consider
    "popup_guard opts manifest = Inr False" "opts1 = opts" "res1 = res" "st1 = st"
  | ba dp pth c where "popup_guard opts manifest = Inr True"
      "get_prop manifest ''browser_action'' = Inr ba"
      "get_prop ba ''default_popup'' = Inr dp"
      "js_path_resolve E [JStr m, dp] = Inr pth"
      "prepare_option ''popup'' opts = Inr opts1"
      "buildPopup E pth (own_prop opts1 ''popup'') st = Inr (c, st1)"
      "res1 = res(''popup'' \<mapsto> c)"
    unfolding load_popup_def
    by (auto split: sum.splits bool.splits prod.splits)
  then show thesis
  proof cases
    case 1
    then show ?thesis by (rule skip)
  next
    case (2 ba dp pth c)
    from 2(4) obtain s where "dp = JStr s" "pth = path_resolve E [m, s]"
      by (cases dp) (auto simp: js_path_resolve_def)
    with 2 show ?thesis by (intro build[of ba s c]) auto
  qed
qed

lemma background_guard_Inr:
  assumes "background_guard opts manifest = Inr g"
  shows "g \<longleftrightarrow>
      (own_prop opts ''background'' = JUndefined \<or> truthy (own_prop opts ''background''))
    \<and> truthy (peek manifest ''background'')
    \<and> (truthy (peek (peek manifest ''background'') ''page'')
       \<or> truthy (peek (peek manifest ''background'') ''scripts''))"
  using assms
  by (auto simp: background_guard_def peek_def split: if_splits sum.splits)

lemma popup_guard_Inr:
  assumes "popup_guard opts manifest = Inr g"
  shows "g \<longleftrightarrow>
      (own_prop opts ''popup'' = JUndefined \<or> truthy (own_prop opts ''popup''))
    \<and> truthy (peek manifest ''browser_action'')
    \<and> truthy (peek (peek manifest ''browser_action'') ''default_popup'')"
  using assms
  by (auto simp: popup_guard_def peek_def split: if_splits sum.splits)

lemma fromManifest_structure:
  assumes "fromManifest E m opts = (opts', Inr (res, st))"
  obtains contents manifest st1 where
    "readFileSync E (path_resolve E [m, ''manifest.json'']) = Some contents"
    "JSON_parse E contents = Some manifest"
    "case res ''background'' of
       None \<Rightarrow> \<not> background_wanted opts manifest \<and> st1 = initial_state E m
                \<and> own_prop opts' ''background'' = own_prop opts ''background''
     | Some cb \<Rightarrow> background_wanted opts manifest
          \<and> buildBackground E (peek manifest ''background'') m
               (prepared_option (own_prop opts ''background'') (own_prop opts ''apiFake''))
               (initial_state E m) = Inr (cb, st1)
          \<and> own_prop opts' ''background''
               = prepared_option (own_prop opts ''background'') (own_prop opts ''apiFake'')"
    "case res ''popup'' of
       None \<Rightarrow> \<not> popup_wanted opts manifest \<and> st = st1
                \<and> own_prop opts' ''popup'' = own_prop opts ''popup''
     | Some cp \<Rightarrow> popup_wanted opts manifest
          \<and> (\<exists>s. peek (peek manifest ''browser_action'') ''default_popup'' = JStr s
               \<and> buildPopup E (path_resolve E [m, s])
                    (prepared_option (own_prop opts ''popup'') (own_prop opts ''apiFake''))
                    st1 = Inr (cp, st))
          \<and> own_prop opts' ''popup''
               = prepared_option (own_prop opts ''popup'') (own_prop opts ''apiFake'')"
    "\<And>k. k \<noteq> ''background'' \<Longrightarrow> k \<noteq> ''popup'' \<Longrightarrow>
       res k = None \<and> own_prop opts' k = own_prop opts k"
proof -
  from assms obtain contents manifest opts1 res1 st1 where
    r: "readFileSync E (path_resolve E [m, ''manifest.json'']) = Some contents" and
    p: "JSON_parse E contents = Some manifest" and
    lb: "load_background E m manifest opts (initial_state E m) = (opts1, Inr (res1, st1))" and
    lp: "load_popup E m manifest opts1 res1 st1 = (opts', Inr (res, st))"
    unfolding initial_state_def by (rule fromManifest_Inr)
  have bg: "(case res1 ''background'' of
       None \<Rightarrow> \<not> background_wanted opts manifest \<and> st1 = initial_state E m
                \<and> own_prop opts1 ''background'' = own_prop opts ''background''
     | Some cb \<Rightarrow> background_wanted opts manifest
          \<and> buildBackground E (peek manifest ''background'') m
               (prepared_option (own_prop opts ''background'') (own_prop opts ''apiFake''))
               (initial_state E m) = Inr (cb, st1)
          \<and> own_prop opts1 ''background''
               = prepared_option (own_prop opts ''background'') (own_prop opts ''apiFake''))
     \<and> (\<forall>k. k \<noteq> ''background'' \<longrightarrow> res1 k = None \<and> own_prop opts1 k = own_prop opts k)"
    using lb
  proof (cases rule: load_background_Inr)
    case skip
    with background_guard_Inr[OF skip(1)] show ?thesis
      by (simp add: background_wanted_def)
  next
    case (build mb c)
    from background_guard_Inr[OF build(1)] have w: "background_wanted opts manifest"
      by (simp add: background_wanted_def)
    note po = prepare_option_Inr[OF build(2)]
    from build(3) have "peek manifest ''background'' = mb" by (simp add: peek_def)
    with build w po show ?thesis by simp
  qed
  have pp: "(case res ''popup'' of
       None \<Rightarrow> \<not> popup_wanted opts1 manifest \<and> st = st1
                \<and> own_prop opts' ''popup'' = own_prop opts1 ''popup''
     | Some cp \<Rightarrow> popup_wanted opts1 manifest
          \<and> (\<exists>s. peek (peek manifest ''browser_action'') ''default_popup'' = JStr s
               \<and> buildPopup E (path_resolve E [m, s])
                    (prepared_option (own_prop opts1 ''popup'') (own_prop opts1 ''apiFake''))
                    st1 = Inr (cp, st))
          \<and> own_prop opts' ''popup''
               = prepared_option (own_prop opts1 ''popup'') (own_prop opts1 ''apiFake''))
     \<and> (\<forall>k. k \<noteq> ''popup'' \<longrightarrow> res k = res1 k \<and> own_prop opts' k = own_prop opts1 k)"
    using lp
  proof (cases rule: load_popup_Inr)
    case skip
    from bg have "res1 ''popup'' = None" by simp
    with skip popup_guard_Inr[OF skip(1)] show ?thesis
      by (simp add: popup_wanted_def)
  next
    case (build ba s c)
    from popup_guard_Inr[OF build(1)] have w: "popup_wanted opts1 manifest"
      by (simp add: popup_wanted_def)
    note po = prepare_option_Inr[OF build(4)]
    from build(2,3) have "peek (peek manifest ''browser_action'') ''default_popup'' = JStr s"
      by (simp add: peek_def)
    with build w po show ?thesis by simp
  qed
  from bg have same: "own_prop opts1 ''popup'' = own_prop opts ''popup''"
      "own_prop opts1 ''apiFake'' = own_prop opts ''apiFake''"
    by simp_all
  then have pw: "popup_wanted opts1 manifest = popup_wanted opts manifest"
    by (simp add: popup_wanted_def)
  from pp have rb: "res ''background'' = res1 ''background''"
      "own_prop opts' ''background'' = own_prop opts1 ''background''"
    by simp_all
  show thesis
  proof (rule that[OF r p, of st1])
    show "case res ''background'' of
       None \<Rightarrow> \<not> background_wanted opts manifest \<and> st1 = initial_state E m
                \<and> own_prop opts' ''background'' = own_prop opts ''background''
     | Some cb \<Rightarrow> background_wanted opts manifest
          \<and> buildBackground E (peek manifest ''background'') m
               (prepared_option (own_prop opts ''background'') (own_prop opts ''apiFake''))
               (initial_state E m) = Inr (cb, st1)
          \<and> own_prop opts' ''background''
               = prepared_option (own_prop opts ''background'') (own_prop opts ''apiFake'')"
      using bg unfolding rb by blast
    show "case res ''popup'' of
       None \<Rightarrow> \<not> popup_wanted opts manifest \<and> st = st1
                \<and> own_prop opts' ''popup'' = own_prop opts ''popup''
     | Some cp \<Rightarrow> popup_wanted opts manifest
          \<and> (\<exists>s. peek (peek manifest ''browser_action'') ''default_popup'' = JStr s
               \<and> buildPopup E (path_resolve E [m, s])
                    (prepared_option (own_prop opts ''popup'') (own_prop opts ''apiFake''))
                    st1 = Inr (cp, st))
          \<and> own_prop opts' ''popup''
               = prepared_option (own_prop opts ''popup'') (own_prop opts ''apiFake'')"
      using pp unfolding same pw by blast
    show "res k = None \<and> own_prop opts' k = own_prop opts k"
      if "k \<noteq> ''background''" "k \<noteq> ''popup''" for k
      using that bg pp by simp
  qed
qed

lemma fromManifest_both:
  assumes run: "fromManifest E m opts = (opts', Inr (res, st))"
      and cb: "res ''background'' = Some cb" and cp: "res ''popup'' = Some cp"
  obtains BG P where
    "webExtension st ''background'' = Some cb"
    "browsers st (ctx_browser cb) = Some BG"
    "browsers st (ctx_browser cp) = Some P"
    "sendMessage_forwards P"
proof -
  from run obtain manifest st1 s where
    bb: "buildBackground E (peek manifest ''background'') m
           (prepared_option (own_prop opts ''background'') (own_prop opts ''apiFake''))
           (initial_state E m) = Inr (cb, st1)" and
    bp: "buildPopup E (path_resolve E [m, s])
           (prepared_option (own_prop opts ''popup'') (own_prop opts ''apiFake''))
           st1 = Inr (cp, st)"
    by (rule fromManifest_structure) (auto simp: cb cp)
  from bb show thesis
  proof (cases rule: buildBackground_Inr)
    case b: (1 af pth html0 srcs ss codes src)
    from bp show thesis
    proof (cases rule: buildPopup_Inr)
      case p: (1 af' ss' codes' src')
      have w: "webExtension st1 ''background'' = Some cb" by (simp add: b(4))
      show thesis
      proof (rule that)
        show "webExtension st ''background'' = Some cb" by (simp add: p(4) w)
        show "browsers st (ctx_browser cb) = Some \<lparr>contextMenus_aliased = True,
                api_faked = truthy af, sendMessage_forwards = False\<rparr>"
          using p(7)[of "ctx_browser cb"] b(8) by (simp add: b(2) b(3))
        show "browsers st (ctx_browser cp) = Some \<lparr>contextMenus_aliased = True,
                api_faked = truthy af', sendMessage_forwards = True\<rparr>"
          using p(8) w by (simp add: p(2))
        show "sendMessage_forwards \<lparr>contextMenus_aliased = True,
                api_faked = truthy af', sendMessage_forwards = True\<rparr>" by simp
      qed
    qed
  qed
qed

section \<open>The sidebar and the wiring\<close>

text \<open>
  Claim C1 says that a manifest that declares a sidebar is answered with a sidebar
  context. The code sets no property of the resolved object but \<^verbatim>\<open>background\<close> and
  \<^verbatim>\<open>popup\<close>: whatever the manifest and the options, a resolved object has no
  \<^verbatim>\<open>sidebar\<close> property.
\<close>

theorem fromManifest_never_sidebar:
  "fromManifest E m opts = (opts', Inr (res, st)) \<Longrightarrow> res ''sidebar'' = None"
  by (erule fromManifest_structure) simp

text \<open>
  Claim C2 says that the forwarding of \<^verbatim>\<open>runtime.sendMessage\<close> is installed only when
  the options enable the wiring. The code reads no such option: whenever \<open>fromManifest\<close>
  builds a background and a popup context, the popup's stub has the forwarding function
  installed, whatever the options are.
\<close>

theorem popup_wired_whenever_background:
  assumes "fromManifest E m opts = (opts', Inr (res, st))"
      and "res ''background'' = Some cb" and "res ''popup'' = Some cp"
  shows "\<exists>P. browsers st (ctx_browser cp) = Some P \<and> sendMessage_forwards P"
proof -
  from assms obtain BG P where
    "browsers st (ctx_browser cp) = Some P" "sendMessage_forwards P"
    by (rule fromManifest_both)
  then show ?thesis by blast
qed



lemmas run_defs = update_stubs_def sendMessage_callsFake_def
  fromManifest_def load_background_def load_popup_def background_guard_def popup_guard_def
  prepare_option_def buildBackground_def buildPopup_def background_dom_def buildDom_def
  JSDOM_fromFile_def new_JSDOM_def getElementsByTagName_script_def window_eval_def
  background_beforeParse_def popup_beforeParse_def call_option_def set_window_browser_def
  fakeApi_def createBrowser_def default_options_def js_path_resolve_def js_path_join_def
  strip_file_prefix_def new_WebExtensionsJSDOM_def own_prop_def
  update_browser_def update_dom_def log_def Let_def
  example_env_def

lemma sidebar_run:
  "\<exists>opts' res st.
     fromManifest (example_env sidebar_manifest) ''/ext'' [] = (opts', Inr (res, st))"
  by (simp add: run_defs sidebar_manifest_def)

text \<open>
  A manifest with \<^verbatim>\<open>sidebar_action.default_panel\<close>, a background page and a popup: the
  promise resolves to an object without a sidebar context.
\<close>

theorem fromManifest_never_sidebar_witness:
  "peek (peek sidebar_manifest ''sidebar_action'') ''default_panel'' = JStr ''sidebar.html''
   \<and> resolved (fromManifest (example_env sidebar_manifest) ''/ext'' [])
   \<and> resolved_context (fromManifest (example_env sidebar_manifest) ''/ext'' []) ''sidebar''
       = None"
proof -
  from sidebar_run obtain opts' res st where
    h: "fromManifest (example_env sidebar_manifest) ''/ext'' [] = (opts', Inr (res, st))"
    by blast
  from fromManifest_never_sidebar[OF h] have "res ''sidebar'' = None" .
  with h show ?thesis
    by (simp add: resolved_def resolved_context_def peek_def sidebar_manifest_def own_prop_def)
qed

lemma unwired_run:
  "\<exists>opts' res st.
     fromManifest (example_env example_manifest) ''/ext'' [(''wiring'', JBool False)]
       = (opts', Inr (res, st))
     \<and> res ''background'' = Some \<lparr>ctx_browser = 0, ctx_dom = 1, ctx_document = 1, ctx_helper = False\<rparr>
     \<and> res ''popup'' = Some \<lparr>ctx_browser = 2, ctx_dom = 3, ctx_document = 3, ctx_helper = True\<rparr>"
  by (simp add: run_defs example_manifest_def)

text \<open>
  With the option \<^verbatim>\<open>wiring: false\<close> the forwarding function is installed on the stub of
  the popup (the reference 2).
\<close>

theorem popup_wired_whenever_background_witness:
  "own_prop [(''wiring'', JBool False)] ''wiring'' = JBool False
   \<and> (\<exists>opts' res st P.
        fromManifest (example_env example_manifest) ''/ext'' [(''wiring'', JBool False)]
          = (opts', Inr (res, st))
        \<and> map_option ctx_browser (res ''popup'') = Some 2
        \<and> browsers st 2 = Some P \<and> sendMessage_forwards P)"
proof -
  from unwired_run obtain opts' res st where
    h: "fromManifest (example_env example_manifest) ''/ext'' [(''wiring'', JBool False)]
          = (opts', Inr (res, st))" and
    b: "res ''background'' = Some \<lparr>ctx_browser = 0, ctx_dom = 1, ctx_document = 1, ctx_helper = False\<rparr>" and
    p: "res ''popup'' = Some \<lparr>ctx_browser = 2, ctx_dom = 3, ctx_document = 3, ctx_helper = True\<rparr>"
    by blast
  from popup_wired_whenever_background[OF h b p] h p show ?thesis
    by (simp add: own_prop_def)
qed



section \<open>Which contexts are built\<close>

text \<open>
  Claim C5, amended. When the promise of \<open>fromManifest\<close> resolves, the resolved object
  has a background context if and only if \<^verbatim>\<open>options.background\<close> is undefined or truthy
  and the manifest read at \<^verbatim>\<open>manifest.json\<close> has a truthy \<^verbatim>\<open>background\<close> with a truthy
  \<^verbatim>\<open>page\<close> or a truthy \<^verbatim>\<open>scripts\<close>; it has a popup context if and only if
  \<^verbatim>\<open>options.popup\<close> is undefined or truthy and the manifest has a truthy
  \<^verbatim>\<open>browser_action\<close> with a truthy \<^verbatim>\<open>default_popup\<close>.
\<close>

theorem fromManifest_contexts_iff:
  assumes "fromManifest E m opts = (opts', Inr (res, st))"
  shows "\<exists>contents manifest.
       readFileSync E (path_resolve E [m, ''manifest.json'']) = Some contents
     \<and> JSON_parse E contents = Some manifest
     \<and> (res ''background'' \<noteq> None \<longleftrightarrow>
           (own_prop opts ''background'' = JUndefined \<or> truthy (own_prop opts ''background''))
         \<and> truthy (peek manifest ''background'')
         \<and> (truthy (peek (peek manifest ''background'') ''page'')
            \<or> truthy (peek (peek manifest ''background'') ''scripts'')))
     \<and> (res ''popup'' \<noteq> None \<longleftrightarrow>
           (own_prop opts ''popup'' = JUndefined \<or> truthy (own_prop opts ''popup''))
         \<and> truthy (peek manifest ''browser_action'')
         \<and> truthy (peek (peek manifest ''browser_action'') ''default_popup''))"
  using assms
proof (cases rule: fromManifest_structure)
  case (1 contents manifest st1)
  from 1(3) have "res ''background'' \<noteq> None \<longleftrightarrow> background_wanted opts manifest"
    by (cases "res ''background''") simp_all
  moreover from 1(4) have "res ''popup'' \<noteq> None \<longleftrightarrow> popup_wanted opts manifest"
    by (cases "res ''popup''") simp_all
  ultimately show ?thesis
    using 1(1,2) unfolding background_wanted_def popup_wanted_def by blast
qed

lemma popup_disabled_run:
  "\<exists>opts' res st.
     fromManifest (example_env example_manifest) ''/ext'' [(''popup'', JBool False)]
       = (opts', Inr (res, st))"
  by (simp add: run_defs example_manifest_def)

text \<open>
  With \<^verbatim>\<open>popup: false\<close> the example resolves to a background context and no popup
  context.
\<close>

theorem fromManifest_contexts_iff_witness:
  "\<exists>opts' res st.
     fromManifest (example_env example_manifest) ''/ext'' [(''popup'', JBool False)]
       = (opts', Inr (res, st))
     \<and> res ''background'' \<noteq> None \<and> res ''popup'' = None"
proof -
  from popup_disabled_run obtain opts' res st where
    h: "fromManifest (example_env example_manifest) ''/ext'' [(''popup'', JBool False)]
          = (opts', Inr (res, st))"
    by blast
  from fromManifest_contexts_iff[OF h]
  have "res ''background'' \<noteq> None \<and> res ''popup'' = None"
    by (auto simp: example_env_def example_manifest_def peek_def own_prop_def)
  with h show ?thesis by blast
qed

text \<open>
  Claim C5 as stated asks only that the option is not \<^verbatim>\<open>false\<close>. With
  \<^verbatim>\<open>background: null\<close>, which is not \<^verbatim>\<open>false\<close>, and a manifest that declares a
  background page, the promise resolves to an object without a background context: the
  test of line 161 is a test for truthiness.
\<close>

theorem fromManifest_null_option_counterexample:
  "own_prop [(''background'', JNull)] ''background'' \<noteq> JBool False
   \<and> peek (peek example_manifest ''background'') ''page'' = JStr ''background.html''
   \<and> resolved (fromManifest (example_env example_manifest) ''/ext'' [(''background'', JNull)])
   \<and> resolved_context
        (fromManifest (example_env example_manifest) ''/ext'' [(''background'', JNull)])
        ''background'' = None"
  by (simp add: run_defs example_manifest_def resolved_def resolved_context_def peek_def)

section \<open>The options object after the call\<close>

lemma prepared_option_other:
  assumes "k \<noteq> ''apiFake''"
  shows "peek (prepared_option option apiFake) k
       = (if typeof option = ''object'' then peek option k else JUndefined)"
  using assms
  by (cases option)
     (auto simp: prepared_option_def peek_def own_prop_set_field Let_def)

lemma load_background_options:
  "load_background E m manifest opts st = (opts1, r) \<Longrightarrow>
     opts1 = opts \<or> prepare_option ''background'' opts = Inr opts1"
  unfolding load_background_def
  by (auto split: sum.splits bool.splits prod.splits)

lemma load_popup_options:
  "load_popup E m manifest opts res st = (opts1, r) \<Longrightarrow>
     opts1 = opts \<or> prepare_option ''popup'' opts = Inr opts1"
  unfolding load_popup_def
  by (auto split: sum.splits bool.splits prod.splits)

lemma fromManifest_options:
  assumes "fromManifest E m opts = (opts', r)"
  shows "\<exists>opts1. (opts1 = opts \<or> prepare_option ''background'' opts = Inr opts1)
           \<and> (opts' = opts1 \<or> prepare_option ''popup'' opts1 = Inr opts')"
proof (cases "readFileSync E (path_resolve E [m, ''manifest.json''])")
  case None
  with assms show ?thesis by (auto simp: fromManifest_def Let_def)
next
  case (Some contents)
  show ?thesis
  proof (cases "JSON_parse E contents")
    case None
    with Some assms show ?thesis by (auto simp: fromManifest_def Let_def)
  next
    case (Some manifest)
    obtain opts1 r1 where
      lb: "load_background E m manifest opts (initial_state E m) = (opts1, r1)"
      by (cases "load_background E m manifest opts (initial_state E m)") blast
    note b = load_background_options[OF lb]
    show ?thesis
    proof (cases r1)
      case (Inl e)
      with assms Some \<open>readFileSync E (path_resolve E [m, ''manifest.json'']) = Some contents\<close> lb
      have "opts' = opts1" by (simp add: fromManifest_def Let_def initial_state_def)
      with b show ?thesis by blast
    next
      case (Inr x)
      obtain res1 st1 where x: "x = (res1, st1)" by (cases x)
      with Inr assms Some
        \<open>readFileSync E (path_resolve E [m, ''manifest.json'']) = Some contents\<close> lb
      have "load_popup E m manifest opts1 res1 st1 = (opts', r)"
        by (simp add: fromManifest_def Let_def initial_state_def)
      from load_popup_options[OF this] b show ?thesis by blast
    qed
  qed
qed

text \<open>
  Claim C10. \<open>opts'\<close> is the options object as a call of \<open>fromManifest\<close> leaves it,
  whether the promise resolves or not. No property other than \<^verbatim>\<open>background\<close> and
  \<^verbatim>\<open>popup\<close> is changed; each of the two is unchanged or holds the prepared option (an
  empty object in place of a value that is not an object, and the top-level
  \<^verbatim>\<open>apiFake\<close>, when defined, as its \<^verbatim>\<open>apiFake\<close>); and when the promise resolves, it
  holds the prepared option exactly when the context was built. The prepared option
  differs from an option that is an object in no property but \<^verbatim>\<open>apiFake\<close>. Objects are values
  here, so an options object whose \<^verbatim>\<open>background\<close> and \<^verbatim>\<open>popup\<close> are one shared object
  is outside the statement.
\<close>

theorem fromManifest_mutates_options:
  assumes "fromManifest E m opts = (opts', r)"
  shows "(\<forall>k. k \<noteq> ''background'' \<and> k \<noteq> ''popup'' \<longrightarrow> own_prop opts' k = own_prop opts k)
     \<and> (own_prop opts' ''background'' = own_prop opts ''background''
        \<or> own_prop opts' ''background''
            = prepared_option (own_prop opts ''background'') (own_prop opts ''apiFake''))
     \<and> (own_prop opts' ''popup'' = own_prop opts ''popup''
        \<or> own_prop opts' ''popup''
            = prepared_option (own_prop opts ''popup'') (own_prop opts ''apiFake''))
     \<and> (\<forall>res st. r = Inr (res, st) \<longrightarrow>
          own_prop opts' ''background''
            = (if res ''background'' = None then own_prop opts ''background''
               else prepared_option (own_prop opts ''background'') (own_prop opts ''apiFake''))
        \<and> own_prop opts' ''popup''
            = (if res ''popup'' = None then own_prop opts ''popup''
               else prepared_option (own_prop opts ''popup'') (own_prop opts ''apiFake'')))
     \<and> (\<forall>option k. k \<noteq> ''apiFake'' \<longrightarrow>
          peek (prepared_option option (own_prop opts ''apiFake'')) k
            = (if typeof option = ''object'' then peek option k else JUndefined))"
proof -
  from fromManifest_options[OF assms] obtain opts1 where
    b: "opts1 = opts \<or> prepare_option ''background'' opts = Inr opts1" and
    p: "opts' = opts1 \<or> prepare_option ''popup'' opts1 = Inr opts'"
    by blast
  have b': "own_prop opts1 k = own_prop opts k
        \<or> (k = ''background'' \<and> own_prop opts1 k
             = prepared_option (own_prop opts ''background'') (own_prop opts ''apiFake''))" for k
    using b prepare_option_Inr[of "''background''" opts opts1 k]
    by (cases "k = ''background''") auto
  have p': "own_prop opts' k = own_prop opts1 k
        \<or> (k = ''popup'' \<and> own_prop opts' k
             = prepared_option (own_prop opts1 ''popup'') (own_prop opts1 ''apiFake''))" for k
    using p prepare_option_Inr[of "''popup''" opts1 opts' k]
    by (cases "k = ''popup''") auto
  have frame: "\<forall>k. k \<noteq> ''background'' \<and> k \<noteq> ''popup'' \<longrightarrow> own_prop opts' k = own_prop opts k"
    using b' p' by metis
  have bg: "own_prop opts' ''background'' = own_prop opts ''background''
        \<or> own_prop opts' ''background''
            = prepared_option (own_prop opts ''background'') (own_prop opts ''apiFake'')"
    using b'[of "''background''"] p'[of "''background''"] by auto
  have pp: "own_prop opts' ''popup'' = own_prop opts ''popup''
        \<or> own_prop opts' ''popup''
            = prepared_option (own_prop opts ''popup'') (own_prop opts ''apiFake'')"
    using b'[of "''popup''"] b'[of "''apiFake''"] p'[of "''popup''"] by auto
  have ok: "own_prop opts' ''background''
            = (if res ''background'' = None then own_prop opts ''background''
               else prepared_option (own_prop opts ''background'') (own_prop opts ''apiFake''))
        \<and> own_prop opts' ''popup''
            = (if res ''popup'' = None then own_prop opts ''popup''
               else prepared_option (own_prop opts ''popup'') (own_prop opts ''apiFake''))"
    if "r = Inr (res, st)" for res st
    using assms unfolding that
  proof (cases rule: fromManifest_structure)
    case (1 contents manifest st1)
    from 1(3) have "own_prop opts' ''background''
            = (if res ''background'' = None then own_prop opts ''background''
               else prepared_option (own_prop opts ''background'') (own_prop opts ''apiFake''))"
      by (cases "res ''background''") simp_all
    moreover from 1(4) have "own_prop opts' ''popup''
            = (if res ''popup'' = None then own_prop opts ''popup''
               else prepared_option (own_prop opts ''popup'') (own_prop opts ''apiFake''))"
      by (cases "res ''popup''") simp_all
    ultimately show ?thesis by simp
  qed
  have inner: "\<forall>option k. k \<noteq> ''apiFake'' \<longrightarrow>
          peek (prepared_option option (own_prop opts ''apiFake'')) k
            = (if typeof option = ''object'' then peek option k else JUndefined)"
    using prepared_option_other by blast
  from frame bg pp ok have outer:
    "(\<forall>k. k \<noteq> ''background'' \<and> k \<noteq> ''popup'' \<longrightarrow> own_prop opts' k = own_prop opts k)
     \<and> (own_prop opts' ''background'' = own_prop opts ''background''
        \<or> own_prop opts' ''background''
            = prepared_option (own_prop opts ''background'') (own_prop opts ''apiFake''))
     \<and> (own_prop opts' ''popup'' = own_prop opts ''popup''
        \<or> own_prop opts' ''popup''
            = prepared_option (own_prop opts ''popup'') (own_prop opts ''apiFake''))
     \<and> (\<forall>res st. r = Inr (res, st) \<longrightarrow>
          own_prop opts' ''background''
            = (if res ''background'' = None then own_prop opts ''background''
               else prepared_option (own_prop opts ''background'') (own_prop opts ''apiFake''))
        \<and> own_prop opts' ''popup''
            = (if res ''popup'' = None then own_prop opts ''popup''
               else prepared_option (own_prop opts ''popup'') (own_prop opts ''apiFake'')))"
    by blast
  from outer inner show ?thesis by (elim conjE, intro conjI) assumption+
qed

lemma apiFake_run:
  "\<exists>opts' res st.
     fromManifest (example_env example_manifest) ''/ext''
       [(''apiFake'', JBool True), (''popup'', JBool True), (''keep'', JNum 7)]
       = (opts', Inr (res, st))
     \<and> res ''background'' = Some \<lparr>ctx_browser = 0, ctx_dom = 1, ctx_document = 1, ctx_helper = False\<rparr>
     \<and> res ''popup'' = Some \<lparr>ctx_browser = 2, ctx_dom = 3, ctx_document = 3, ctx_helper = True\<rparr>"
  by (simp add: run_defs example_manifest_def)

text \<open>
  With \<^verbatim>\<open>{apiFake: true, popup: true, keep: 7}\<close> both options end as
  \<^verbatim>\<open>{apiFake: true}\<close>; \<^verbatim>\<open>apiFake\<close> and \<^verbatim>\<open>keep\<close> are as before. An option with an
  \<^verbatim>\<open>afterBuild\<close> function keeps it when it is prepared.
\<close>

theorem fromManifest_mutates_options_witness:
  "\<exists>opts' r.
     fromManifest (example_env example_manifest) ''/ext''
       [(''apiFake'', JBool True), (''popup'', JBool True), (''keep'', JNum 7)] = (opts', r)
     \<and> own_prop opts' ''background'' = JObj [(''apiFake'', JBool True)]
     \<and> own_prop opts' ''popup'' = JObj [(''apiFake'', JBool True)]
     \<and> own_prop opts' ''apiFake'' = JBool True
     \<and> own_prop opts' ''keep'' = JNum 7
     \<and> peek (prepared_option (JObj [(''afterBuild'', JFun 1)]) (JBool True)) ''afterBuild''
         = JFun 1"
proof -
  let ?opts = "[(''apiFake'', JBool True), (''popup'', JBool True), (''keep'', JNum 7)]"
  from apiFake_run obtain opts' res st where
    h: "fromManifest (example_env example_manifest) ''/ext'' ?opts = (opts', Inr (res, st))" and
    b: "res ''background'' \<noteq> None" and p: "res ''popup'' \<noteq> None"
    by auto
  note t = fromManifest_mutates_options[OF h]
  note frame = t[THEN conjunct1, rule_format]
  note built = t[THEN conjunct2, THEN conjunct2, THEN conjunct2, THEN conjunct1,
      rule_format, OF refl]
  note inner = t[THEN conjunct2, THEN conjunct2, THEN conjunct2, THEN conjunct2,
      rule_format]
  have a: "own_prop opts' ''apiFake'' = JBool True" "own_prop opts' ''keep'' = JNum 7"
    using frame[of "''apiFake''"] frame[of "''keep''"] by simp_all
  have o: "own_prop opts' ''background'' = JObj [(''apiFake'', JBool True)]"
    "own_prop opts' ''popup'' = JObj [(''apiFake'', JBool True)]"
    using built b p by (simp_all add: prepared_option_def)
  have i: "peek (prepared_option (JObj [(''afterBuild'', JFun 1)]) (JBool True))
      ''afterBuild'' = JFun 1"
    using inner[of "''afterBuild''" "JObj [(''afterBuild'', JFun 1)]"]
    by (simp add: peek_def)
  from h a o i show ?thesis by blast
qed

section \<open>Isolation of the contexts\<close>

text \<open>
  Claim C7 says that the background context and the popup context never share a browser
  stub and that building the popup leaves the browser of the stored background context
  unchanged. When \<open>buildBackground\<close> and then \<open>buildPopup\<close> run on one instance whose
  \<^verbatim>\<open>runtime.sendMessage\<close> stub has not got the forwarding function yet, the two contexts
  do get two browser objects and two JSDOM instances, and the stored background context
  and its JSDOM instance stay as they were. The stubs under the two browser objects are
  those of the one \<^verbatim>\<open>WebExtensionsApiFake\<close> of line 9, though, and building the popup
  changes what the browser of the background context does: before, a call of its
  \<^verbatim>\<open>runtime.sendMessage\<close> returns \<^verbatim>\<open>undefined\<close> (where no fake was applied); after,
  the call is forwarded as if it came from the popup, to the callbacks registered
  before the two builds, by the background script and by the popup script, and it
  returns what the first of them answers, or throws where there is none.
\<close>

theorem buildPopup_changes_background_browser:
  assumes bg: "buildBackground E background manifestPath bopts st0 = Inr (cb, st1)"
      and pp: "buildPopup E popupPath popts st1 = Inr (cp, st2)"
      and nf: "\<not> stub_forwards (webExtensionsApiFake st0)"
  shows "ctx_browser cp \<noteq> ctx_browser cb \<and> ctx_dom cp \<noteq> ctx_dom cb
       \<and> webExtension st2 ''background'' = Some cb
       \<and> doms st2 (ctx_dom cb) = doms st1 (ctx_dom cb)
       \<and> (\<not> stub_faked (webExtensionsApiFake st1)
            \<longrightarrow> runtime_sendMessage st1 (ctx_browser cb) args = Inr JUndefined)
       \<and> (\<exists>srcb srcp.
            map_option evaluated (doms st2 (ctx_dom cb)) = Some [srcb]
          \<and> map_option evaluated (doms st2 (ctx_dom cp)) = Some [srcp]
          \<and> runtime_sendMessage st2 (ctx_browser cb) args =
              (case stub_listeners (webExtensionsApiFake st0)
                      @ script_listeners E srcb @ script_listeners E srcp of
                 [] \<Rightarrow> Inl YieldError
               | f # fs \<Rightarrow> Inr (f args)))"
  using bg
proof (cases rule: buildBackground_Inr)
  case b: (1 af pth html0 srcs ss codes src)
  from pp show ?thesis
  proof (cases rule: buildPopup_Inr)
    case p: (1 af' ss' codes' src')
    let ?ls = "stub_listeners (webExtensionsApiFake st0)
                 @ script_listeners E src @ script_listeners E src'"
    have d: "doms st2 (ctx_dom cb) = doms st1 (ctx_dom cb)"
      using p(5)[of "ctx_dom cb"] by (simp add: b(2) b(3))
    have w: "webExtension st2 ''background'' = Some cb" by (simp add: p(4) b(4))
    have b1: "browsers st1 (ctx_browser cb) \<noteq> None" using b(8) by (simp add: b(2))
    have b2: "browsers st2 (ctx_browser cb) \<noteq> None"
      using p(7)[of "ctx_browser cb"] b1 by (simp add: b(2) b(3))
    have f1: "\<not> stub_forwards (webExtensionsApiFake st1)" using nf by (simp add: b(14))
    have f2: "stub_forwards (webExtensionsApiFake st2)" by (simp add: p(14) b(4))
    have l2: "stub_listeners (webExtensionsApiFake st2) = ?ls" by (simp add: p(15) b(15))
    have before: "runtime_sendMessage st1 (ctx_browser cb) args = Inr JUndefined"
      using b1 f1 by (auto simp: runtime_sendMessage_def)
    have y: "onMessage_yield st2 args =
        (if ?ls = [] then Inl YieldError else Inr (map (\<lambda>f. f args) ?ls))"
      using w b2 l2 by (auto simp: onMessage_yield_def stub_yield_def)
    have after: "runtime_sendMessage st2 (ctx_browser cb) args =
        (case ?ls of [] \<Rightarrow> Inl YieldError | f # fs \<Rightarrow> Inr (f args))"
      using b2 f2 y by (cases ?ls) (auto simp: runtime_sendMessage_def)
    have eb: "map_option evaluated (doms st2 (ctx_dom cb)) = Some [src]"
      using d b(6) by (simp add: b(2))
    have ep: "map_option evaluated (doms st2 (ctx_dom cp)) = Some [src']"
      using p(6) by (simp add: p(2))
    from eb ep after have "\<exists>srcb srcp.
            map_option evaluated (doms st2 (ctx_dom cb)) = Some [srcb]
          \<and> map_option evaluated (doms st2 (ctx_dom cp)) = Some [srcp]
          \<and> runtime_sendMessage st2 (ctx_browser cb) args =
              (case stub_listeners (webExtensionsApiFake st0)
                      @ script_listeners E srcb @ script_listeners E srcp of
                 [] \<Rightarrow> Inl YieldError
               | f # fs \<Rightarrow> Inr (f args))"
      by blast
    with d w before show ?thesis by (simp add: b(2) b(3) p(2))
  qed
qed

lemma two_builds_run:
  "\<exists>cb st1 cp st2.
     buildBackground (example_env example_manifest) (peek example_manifest ''background'')
       ''/ext'' JUndefined new_WebExtensionsJSDOM = Inr (cb, st1)
     \<and> buildPopup (example_env example_manifest) ''/ext/popup.html'' JUndefined st1
         = Inr (cp, st2)
     \<and> cb = \<lparr>ctx_browser = 0, ctx_dom = 1, ctx_document = 1, ctx_helper = False\<rparr>
     \<and> cp = \<lparr>ctx_browser = 2, ctx_dom = 3, ctx_document = 3, ctx_helper = True\<rparr>
     \<and> \<not> stub_faked (webExtensionsApiFake st1)
     \<and> map_option evaluated (doms st2 1) = Some [''B;\<newline>;'']
     \<and> map_option evaluated (doms st2 3) = Some [''P;\<newline>;'']"
  by (simp add: run_defs example_manifest_def peek_def)

text \<open>
  The two builds of the example, one after the other on a new instance. The browser of
  the background context is the object 0, that of the popup context the object 2. A
  message sent through the browser of the background is answered with \<^verbatim>\<open>undefined\<close>
  before the popup is built and by the first callback of the background script after.
\<close>

theorem buildPopup_changes_background_browser_witness:
  "\<exists>cb st1 cp st2.
     buildBackground (example_env example_manifest) (peek example_manifest ''background'')
       ''/ext'' JUndefined new_WebExtensionsJSDOM = Inr (cb, st1)
     \<and> buildPopup (example_env example_manifest) ''/ext/popup.html'' JUndefined st1
         = Inr (cp, st2)
     \<and> ctx_browser cb = 0 \<and> ctx_browser cp = 2
     \<and> webExtension st2 ''background'' = Some cb
     \<and> runtime_sendMessage st1 0 [JStr ''x''] = Inr JUndefined
     \<and> runtime_sendMessage st2 0 [JStr ''x'']
         = Inr (JArr [JStr ''background'', JStr ''x''] [])"
proof -
  let ?E = "example_env example_manifest"
  from two_builds_run obtain cb st1 cp st2 where
    b: "buildBackground ?E (peek example_manifest ''background'')
       ''/ext'' JUndefined new_WebExtensionsJSDOM = Inr (cb, st1)" and
    p: "buildPopup ?E ''/ext/popup.html'' JUndefined st1 = Inr (cp, st2)" and
    c: "cb = \<lparr>ctx_browser = 0, ctx_dom = 1, ctx_document = 1, ctx_helper = False\<rparr>"
       "cp = \<lparr>ctx_browser = 2, ctx_dom = 3, ctx_document = 3, ctx_helper = True\<rparr>" and
    f: "\<not> stub_faked (webExtensionsApiFake st1)" and
    e: "map_option evaluated (doms st2 1) = Some [''B;\<newline>;'']"
       "map_option evaluated (doms st2 3) = Some [''P;\<newline>;'']"
    by blast
  have n: "\<not> stub_forwards (webExtensionsApiFake new_WebExtensionsJSDOM)"
    "stub_listeners (webExtensionsApiFake new_WebExtensionsJSDOM) = []"
    by (simp_all add: new_WebExtensionsJSDOM_def)
  from buildPopup_changes_background_browser[OF b p n(1), of "[JStr ''x'']"] c f e n(2)
  have "webExtension st2 ''background'' = Some cb
     \<and> runtime_sendMessage st1 0 [JStr ''x''] = Inr JUndefined
     \<and> runtime_sendMessage st2 0 [JStr ''x'']
         = Inr (JArr [JStr ''background'', JStr ''x''] [])"
    by (auto simp: example_env_def)
  with b p c show ?thesis
    by (intro exI[of _ cb] exI[of _ st1] exI[of _ cp] exI[of _ st2]) simp
qed

section \<open>Stubbing of the extension API\<close>

lemma callback_events_cases:
  "callback_events options k = [] \<or> (\<exists>i. callback_events options k = [CallFunction i])"
proof (cases "get_prop options k")
  case (Inl e)
  then show ?thesis by (simp add: callback_events_def)
next
  case (Inr f)
  then show ?thesis by (cases f) (simp_all add: callback_events_def)
qed

lemma callback_events_no_FakeApi [simp]:
  "FakeApi b \<notin> set (callback_events options k)"
  "SetWindowBrowser d b \<notin> set (callback_events options k)"
  "Parse d \<notin> set (callback_events options k)"
  using callback_events_cases[of options k] by auto

lemma prepared_option_apiFake:
  assumes "option = JUndefined \<or> truthy option" "apiFake \<noteq> JUndefined"
  shows "get_prop (default_options (prepared_option option apiFake)) ''apiFake'' = Inr apiFake"
    "peek (prepared_option option apiFake) ''apiFake'' = apiFake"
proof -
  from assms(1) have t: "typeof option \<noteq> ''object'' \<or> (\<exists>fs. option = JObj fs)
      \<or> (\<exists>xs fs. option = JArr xs fs)"
    by (cases option) simp_all
  from assms(2) have u: "typeof apiFake \<noteq> ''undefined''" by simp
  from t u show "get_prop (default_options (prepared_option option apiFake)) ''apiFake''
      = Inr apiFake"
    by (auto simp: prepared_option_def default_options_def own_prop_set_field)
  from t u show "peek (prepared_option option apiFake) ''apiFake'' = apiFake"
    by (auto simp: prepared_option_def peek_def own_prop_set_field)
qed

lemma buildBackground_stub:
  assumes "buildBackground E background m options st = Inr (c, st')"
  shows "\<exists>af D B pre post.
       get_prop (default_options options) ''apiFake'' = Inr af
     \<and> next_ref st \<le> ctx_browser c
     \<and> browsers st' (ctx_browser c) = Some B \<and> api_faked B = truthy af
     \<and> doms st' (ctx_dom c) = Some D \<and> window_browser D = Some (ctx_browser c)
     \<and> trace st' = trace st @ pre @ Parse (ctx_dom c) # post
     \<and> Parse (ctx_dom c) \<notin> set pre
     \<and> SetWindowBrowser (ctx_dom c) (ctx_browser c) \<in> set pre
     \<and> (FakeApi (ctx_browser c) \<in> set pre \<longleftrightarrow> truthy af)
     \<and> FakeApi (ctx_browser c) \<notin> set post"
  using assms
proof (cases rule: buildBackground_Inr)
  case (1 af pth html0 srcs ss codes src)
  let ?b = "next_ref st" and ?d = "Suc (next_ref st)"
  let ?pre = "CreateBrowser ?b # NewWindow ?d # SetWindowBrowser ?d ?b
       # (if truthy af then [FakeApi ?b] else [])
       @ callback_events (default_options options) ''beforeParse''"
  let ?post = "map Instrument (map strip_file_prefix ss)
       @ Eval ?d src # callback_events (default_options options) ''afterBuild''"
  have t: "trace st' = trace st @ ?pre @ Parse ?d # ?post" by (simp add: 1(9))
  have "Parse ?d \<notin> set ?pre" "SetWindowBrowser ?d ?b \<in> set ?pre"
    "FakeApi ?b \<in> set ?pre \<longleftrightarrow> truthy af" "FakeApi ?b \<notin> set ?post"
    by auto
  with t 1(1) 1(6) 1(8) show ?thesis
    unfolding 1(2)
    by (intro exI[of _ af]
          exI[of _ "\<lparr>dom_path = pth, dom_html = html0, script_elements = srcs,
                    window_browser = Some ?b, evaluated = [src]\<rparr>"]
          exI[of _ "\<lparr>contextMenus_aliased = True, api_faked = truthy af,
                    sendMessage_forwards = False\<rparr>"]
          exI[of _ ?pre] exI[of _ ?post]) simp
qed

lemma buildPopup_stub:
  assumes "buildPopup E popupPath options st = Inr (c, st')"
  shows "\<exists>af D B pre post.
       get_prop (default_options options) ''apiFake'' = Inr af
     \<and> next_ref st \<le> ctx_browser c
     \<and> browsers st' (ctx_browser c) = Some B \<and> api_faked B = truthy af
     \<and> doms st' (ctx_dom c) = Some D \<and> window_browser D = Some (ctx_browser c)
     \<and> trace st' = trace st @ pre @ Parse (ctx_dom c) # post
     \<and> Parse (ctx_dom c) \<notin> set pre
     \<and> SetWindowBrowser (ctx_dom c) (ctx_browser c) \<in> set pre
     \<and> (FakeApi (ctx_browser c) \<in> set pre \<longleftrightarrow> truthy af)
     \<and> FakeApi (ctx_browser c) \<notin> set post"
  using assms
proof (cases rule: buildPopup_Inr)
  case (1 af ss codes src)
  let ?b = "next_ref st" and ?d = "Suc (next_ref st)"
  let ?pre = "CreateBrowser ?b # NewWindow ?d # SetWindowBrowser ?d ?b
       # (if truthy af then [FakeApi ?b] else [])
       @ (if webExtension st ''background'' \<noteq> None then [CallsFake ?b] else [])
       @ callback_events (default_options options) ''beforeParse''"
  let ?post = "map Instrument (map strip_file_prefix ss)
       @ Eval ?d src # callback_events (default_options options) ''afterBuild''"
  have t: "trace st' = trace st @ ?pre @ Parse ?d # ?post" by (simp add: 1(9))
  have "Parse ?d \<notin> set ?pre" "SetWindowBrowser ?d ?b \<in> set ?pre"
    "FakeApi ?b \<in> set ?pre \<longleftrightarrow> truthy af" "FakeApi ?b \<notin> set ?post"
    by auto
  with t 1(1) 1(6) 1(8) show ?thesis
    unfolding 1(2)
    by (intro exI[of _ af]
          exI[of _ "\<lparr>dom_path = Some popupPath, dom_html = None, script_elements = ss,
                    window_browser = Some ?b, evaluated = [src]\<rparr>"]
          exI[of _ "\<lparr>contextMenus_aliased = True, api_faked = truthy af,
                    sendMessage_forwards = (webExtension st ''background'' \<noteq> None)\<rparr>"]
          exI[of _ ?pre] exI[of _ ?post]) simp
qed

lemma buildPopup_keeps_browser_object:
  assumes bg: "buildBackground E background manifestPath bopts st0 = Inr (cb, st1)"
      and pp: "buildPopup E popupPath popts st1 = Inr (cp, st2)"
  shows "browsers st2 (ctx_browser cb) = browsers st1 (ctx_browser cb)"
  using bg
proof (cases rule: buildBackground_Inr)
  case b: (1 af pth html0 srcs ss codes src)
  from pp show ?thesis
  proof (cases rule: buildPopup_Inr)
    case p: (1 af' ss' codes' src')
    show ?thesis using p(7)[of "ctx_browser cb"] by (simp add: b(2) b(3))
  qed
qed

lemma fromManifest_apiFake:
  assumes run: "fromManifest E m opts = (opts', Inr (res, st))"
      and af: "own_prop opts ''apiFake'' \<noteq> JUndefined"
  shows "(\<forall>cb. res ''background'' = Some cb \<longrightarrow>
            peek (own_prop opts' ''background'') ''apiFake'' = own_prop opts ''apiFake''
          \<and> (\<exists>B. browsers st (ctx_browser cb) = Some B
                \<and> api_faked B = truthy (own_prop opts ''apiFake'')))
       \<and> (\<forall>cp. res ''popup'' = Some cp \<longrightarrow>
            peek (own_prop opts' ''popup'') ''apiFake'' = own_prop opts ''apiFake''
          \<and> (\<exists>B. browsers st (ctx_browser cp) = Some B
                \<and> api_faked B = truthy (own_prop opts ''apiFake'')))"
  using run
proof (cases rule: fromManifest_structure)
  case (1 contents manifest st1)
  let ?af = "own_prop opts ''apiFake''"
  have popup: "peek (own_prop opts' ''popup'') ''apiFake'' = ?af
          \<and> (\<exists>B. browsers st (ctx_browser cp) = Some B \<and> api_faked B = truthy ?af)"
    if cp: "res ''popup'' = Some cp" for cp
  proof -
    from 1(4) cp obtain s where
      w: "popup_wanted opts manifest" and
      bp: "buildPopup E (path_resolve E [m, s]) (prepared_option (own_prop opts ''popup'') ?af)
             st1 = Inr (cp, st)" and
      o: "own_prop opts' ''popup'' = prepared_option (own_prop opts ''popup'') ?af"
      by auto
    from w have u: "own_prop opts ''popup'' = JUndefined \<or> truthy (own_prop opts ''popup'')"
      by (simp add: popup_wanted_def)
    from bp show ?thesis
    proof (cases rule: buildPopup_Inr)
      case p: (1 af' ss codes src)
      from p(1) prepared_option_apiFake(1)[OF u af] have "af' = ?af" by simp
      with p(8) prepared_option_apiFake(2)[OF u af] o show ?thesis by (simp add: p(2))
    qed
  qed
  have background: "peek (own_prop opts' ''background'') ''apiFake'' = ?af
          \<and> (\<exists>B. browsers st (ctx_browser cb) = Some B \<and> api_faked B = truthy ?af)"
    if cb: "res ''background'' = Some cb" for cb
  proof -
    from 1(3) cb have
      w: "background_wanted opts manifest" and
      bb: "buildBackground E (peek manifest ''background'') m
             (prepared_option (own_prop opts ''background'') ?af) (initial_state E m)
             = Inr (cb, st1)" and
      o: "own_prop opts' ''background'' = prepared_option (own_prop opts ''background'') ?af"
      by auto
    from w have u: "own_prop opts ''background'' = JUndefined
        \<or> truthy (own_prop opts ''background'')"
      by (simp add: background_wanted_def)
    from bb show ?thesis
    proof (cases rule: buildBackground_Inr)
      case b: (1 af' pth html0 srcs ss codes src)
      from b(1) prepared_option_apiFake(1)[OF u af] have a: "af' = ?af" by simp
      have "browsers st (ctx_browser cb) = browsers st1 (ctx_browser cb)"
      proof (cases "res ''popup''")
        case None
        with 1(4) show ?thesis by simp
      next
        case (Some cp)
        with 1(4) obtain s where
          "buildPopup E (path_resolve E [m, s])
             (prepared_option (own_prop opts ''popup'') ?af) st1 = Inr (cp, st)"
          by auto
        from buildPopup_keeps_browser_object[OF bb this] show ?thesis .
      qed
      with b(8) a prepared_option_apiFake(2)[OF u af] o show ?thesis by (simp add: b(2))
    qed
  qed
  from popup background show ?thesis by blast
qed

text \<open>
  Claim C8. \<open>stubbed options st c st'\<close> says of a build from the state \<open>st\<close> to
  \<open>st'\<close> with the context \<open>c\<close>: the stub of \<open>c\<close> was created by this build, it is the
  \<^verbatim>\<open>browser\<close> of the window of \<open>c\<close>, and was set before the document was parsed;
  \<^verbatim>\<open>fakeApi\<close> was applied to it, also before parsing, if and only if the
  \<^verbatim>\<open>apiFake\<close> of the options is truthy, and never after. It holds of every build of
  a background and of a popup context. In \<open>fromManifest\<close>, a top-level \<^verbatim>\<open>apiFake\<close> that
  is defined becomes the \<^verbatim>\<open>apiFake\<close> of the options of each context that is built, and
  decides whether the stub of that context is faked.
\<close>

theorem api_stubbing:
  "(buildBackground E background m options st = Inr (c, st')
      \<longrightarrow> stubbed (default_options options) st c st')
 \<and> (buildPopup E popupPath options st = Inr (c, st')
      \<longrightarrow> stubbed (default_options options) st c st')
 \<and> (fromManifest E m opts = (opts', Inr (res, st'')) \<and> own_prop opts ''apiFake'' \<noteq> JUndefined
      \<longrightarrow> (\<forall>cb. res ''background'' = Some cb \<longrightarrow>
              peek (own_prop opts' ''background'') ''apiFake'' = own_prop opts ''apiFake''
            \<and> (\<exists>B. browsers st'' (ctx_browser cb) = Some B
                  \<and> api_faked B = truthy (own_prop opts ''apiFake'')))
        \<and> (\<forall>cp. res ''popup'' = Some cp \<longrightarrow>
              peek (own_prop opts' ''popup'') ''apiFake'' = own_prop opts ''apiFake''
            \<and> (\<exists>B. browsers st'' (ctx_browser cp) = Some B
                  \<and> api_faked B = truthy (own_prop opts ''apiFake''))))"
  using buildBackground_stub[of E background m options st c st']
    buildPopup_stub[of E popupPath options st c st']
    fromManifest_apiFake[of E m opts opts' res st'']
  unfolding stubbed_def by blast

lemma stub_builds_run:
  "\<exists>cb st1 cp st2.
     buildBackground (example_env example_manifest) (peek example_manifest ''background'')
       ''/ext'' (JObj [(''apiFake'', JBool True)]) new_WebExtensionsJSDOM = Inr (cb, st1)
     \<and> buildPopup (example_env example_manifest) ''/ext/popup.html'' JUndefined st1
         = Inr (cp, st2)
     \<and> map_option api_faked (browsers st2 (ctx_browser cb)) = Some True
     \<and> map_option api_faked (browsers st2 (ctx_browser cp)) = Some False"
  by (simp add: run_defs example_manifest_def peek_def)

text \<open>
  A background built with \<^verbatim>\<open>{apiFake: true}\<close>, a popup built with no options, and
  the example with a top-level \<^verbatim>\<open>apiFake: true\<close>.
\<close>

theorem api_stubbing_witness:
  "\<exists>cb st1 cp st2 opts' res st.
     buildBackground (example_env example_manifest) (peek example_manifest ''background'')
       ''/ext'' (JObj [(''apiFake'', JBool True)]) new_WebExtensionsJSDOM = Inr (cb, st1)
     \<and> stubbed (JObj [(''apiFake'', JBool True)]) new_WebExtensionsJSDOM cb st1
     \<and> buildPopup (example_env example_manifest) ''/ext/popup.html'' JUndefined st1
         = Inr (cp, st2)
     \<and> stubbed (JObj []) st1 cp st2
     \<and> fromManifest (example_env example_manifest) ''/ext''
         [(''apiFake'', JBool True), (''popup'', JBool True), (''keep'', JNum 7)]
         = (opts', Inr (res, st))
     \<and> peek (own_prop opts' ''background'') ''apiFake'' = JBool True
     \<and> peek (own_prop opts' ''popup'') ''apiFake'' = JBool True
     \<and> map_option api_faked (browsers st 0) = Some True
     \<and> map_option api_faked (browsers st 2) = Some True"
proof -
  from stub_builds_run obtain cb st1 cp st2 where
    b: "buildBackground (example_env example_manifest) (peek example_manifest ''background'')
       ''/ext'' (JObj [(''apiFake'', JBool True)]) new_WebExtensionsJSDOM = Inr (cb, st1)" and
    p: "buildPopup (example_env example_manifest) ''/ext/popup.html'' JUndefined st1
         = Inr (cp, st2)"
    by blast
  from apiFake_run obtain opts' res st where
    h: "fromManifest (example_env example_manifest) ''/ext''
          [(''apiFake'', JBool True), (''popup'', JBool True), (''keep'', JNum 7)]
          = (opts', Inr (res, st))" and
    rb: "res ''background'' = Some \<lparr>ctx_browser = 0, ctx_dom = 1, ctx_document = 1, ctx_helper = False\<rparr>" and
    rp: "res ''popup'' = Some \<lparr>ctx_browser = 2, ctx_dom = 3, ctx_document = 3, ctx_helper = True\<rparr>"
    by blast
  have 1: "stubbed (JObj [(''apiFake'', JBool True)]) new_WebExtensionsJSDOM cb st1"
    using api_stubbing[where E = "example_env example_manifest"
        and background = "peek example_manifest ''background''" and m = "''/ext''"
        and options = "JObj [(''apiFake'', JBool True)]" and st = new_WebExtensionsJSDOM
        and c = cb and st' = st1] b
    by (simp add: default_options_def)
  have 2: "stubbed (JObj []) st1 cp st2"
    using api_stubbing[where E = "example_env example_manifest"
        and popupPath = "''/ext/popup.html''" and options = JUndefined and st = st1
        and c = cp and st' = st2] p
    by (simp add: default_options_def)
  have 3: "peek (own_prop opts' ''background'') ''apiFake'' = JBool True
     \<and> peek (own_prop opts' ''popup'') ''apiFake'' = JBool True
     \<and> map_option api_faked (browsers st 0) = Some True
     \<and> map_option api_faked (browsers st 2) = Some True"
    using api_stubbing[where E = "example_env example_manifest" and m = "''/ext''"
        and opts = "[(''apiFake'', JBool True), (''popup'', JBool True), (''keep'', JNum 7)]"
        and opts' = opts' and res = res and st'' = st] h rb rp
    by auto
  from b p h 1 2 3 show ?thesis by blast
qed

section \<open>A background with neither page nor scripts\<close>

lemma get_prop_Inl: "get_prop v k = Inl e \<Longrightarrow> e = TypeError k"
  by (cases v) auto

lemma call_option_Inl: "call_option options k st = Inl e \<Longrightarrow> e = TypeError k"
  by (cases "get_prop options k")
     (auto simp: call_option_def dest: get_prop_Inl split: if_splits jsval.splits)

lemma background_beforeParse_Inl:
  "background_beforeParse b options w st = Inl e \<Longrightarrow> e \<noteq> window_error"
  by (auto simp: background_beforeParse_def window_error_def Let_def
      dest!: get_prop_Inl call_option_Inl split: sum.splits)

lemma popup_beforeParse_Inl:
  "popup_beforeParse b options w st = Inl e \<Longrightarrow> e \<noteq> window_error"
  by (auto simp: popup_beforeParse_def window_error_def Let_def
      dest!: get_prop_Inl call_option_Inl split: sum.splits)

lemma instrument_loop_Inl:
  "instrument_loop E ss acc st = Inl e \<Longrightarrow> e \<noteq> window_error"
  by (induction ss arbitrary: acc st)
     (auto simp: window_error_def Let_def split: option.splits)

lemma buildDom_Inl:
  assumes "buildDom E options html scripts st = Inl e"
      and "\<And>w s e. opt_beforeParse options w s = Inl e \<Longrightarrow> e \<noteq> window_error"
  shows "e \<noteq> window_error"
proof
  assume e: "e = window_error"
  have n: "new_JSDOM p h srcs (opt_beforeParse options) s \<noteq> Inl window_error" for p h srcs s
    using assms(2) by (auto simp: new_JSDOM_def Let_def split: sum.splits)
  have f: "JSDOM_fromFile E p (opt_beforeParse options) s \<noteq> Inl window_error" for p s
    using n by (auto simp: JSDOM_fromFile_def window_error_def split: option.splits)
  have l: "instrument_loop E ss acc s \<noteq> Inl window_error" for ss acc s
    using instrument_loop_Inl by blast
  have w: "window_eval E d src s \<noteq> Inl window_error" for d src s
    by (auto simp: window_eval_def window_error_def Let_def)
  from assms(1) e show False
    unfolding buildDom_def
    using n f l w
    by (auto simp: window_error_def split: if_splits sum.splits option.splits prod.splits)
qed

lemma js_strings_Inl: "js_strings vs = Inl e \<Longrightarrow> e = TypeError ''path''"
  by (induction vs rule: js_strings.induct) (auto split: sum.splits)

lemma resolve_scripts_Inl: "resolve_scripts E m items = Inl e \<Longrightarrow> e = TypeError ''path''"
  by (induction items)
     (auto simp: js_path_join_def dest: js_strings_Inl split: sum.splits)

lemma js_iterate_Inl: "js_iterate v = Inl e \<Longrightarrow> e = TypeError ''not iterable''"
  by (cases v) auto

lemma background_dom_Inl:
  assumes "background_dom E background m h st = Inl e"
      and "\<And>w s e. h w s = Inl e \<Longrightarrow> e \<noteq> window_error"
  shows "e \<noteq> window_error"
proof
  assume e: "e = window_error"
  have b: "buildDom E \<lparr>opt_path = p, opt_beforeParse = h\<rparr> html scripts s \<noteq> Inl window_error"
    for p html scripts s
    using buildDom_Inl[of E "\<lparr>opt_path = p, opt_beforeParse = h\<rparr>" html scripts s window_error]
      assms(2) by auto
  from assms(1) e show False
    unfolding background_dom_def js_path_resolve_def
    using b
    by (auto simp: window_error_def
        dest!: get_prop_Inl js_strings_Inl resolve_scripts_Inl js_iterate_Inl
        split: if_splits sum.splits prod.splits)
qed

lemma background_dom_defined:
  assumes "truthy (peek background ''page'') \<or> truthy (peek background ''scripts'')"
  shows "background_dom E background m h st \<noteq> Inr (None, st')"
  using assms
  by (auto simp: background_dom_def peek_def split: sum.splits if_splits prod.splits)

lemma background_dom_undefined:
  assumes "background \<noteq> JUndefined" "background \<noteq> JNull"
      and "\<not> truthy (peek background ''page'')" "\<not> truthy (peek background ''scripts'')"
  shows "background_dom E background m h st = Inr (None, st)"
proof -
  from assms(1,2) obtain page scripts where
    "get_prop background ''page'' = Inr page" "get_prop background ''scripts'' = Inr scripts"
    by (cases background) auto
  with assms(3,4) show ?thesis by (simp add: background_dom_def peek_def)
qed

lemma buildBackground_window_error:
  assumes "buildBackground E background m options st = Inl window_error"
  shows "\<not> truthy (peek background ''page'') \<and> \<not> truthy (peek background ''scripts'')"
proof (rule ccontr)
  assume "\<not> ?thesis"
  then have t: "truthy (peek background ''page'') \<or> truthy (peek background ''scripts'')"
    by blast
  let ?b = "fst (createBrowser st)" and ?s = "snd (createBrowser st)"
  let ?h = "background_beforeParse ?b (default_options options)"
  have h: "\<And>w s e. ?h w s = Inl e \<Longrightarrow> e \<noteq> window_error"
    by (rule background_beforeParse_Inl)
  show False
  proof (cases "background_dom E background m ?h ?s")
    case (Inl e)
    with assms have "e = window_error"
      by (simp add: buildBackground_def Let_def split_beta)
    with background_dom_Inl[OF Inl h] show False by simp
  next
    case (Inr x)
    obtain d st2 where x: "x = (d, st2)" by (cases x)
    show False
    proof (cases d)
      case None
      with Inr x background_dom_defined[OF t] show False by blast
    next
      case (Some d')
      with Inr x assms show False
        by (auto simp: buildBackground_def Let_def split_beta window_error_def
            dest!: call_option_Inl split: sum.splits)
    qed
  qed
qed

lemma buildPopup_Inl:
  "buildPopup E popupPath options st = Inl e \<Longrightarrow> e \<noteq> window_error"
proof
  assume a: "buildPopup E popupPath options st = Inl e" and e: "e = window_error"
  let ?b = "fst (createBrowser st)" and ?s = "snd (createBrowser st)"
  let ?o = "\<lparr>opt_path = Some popupPath,
             opt_beforeParse = popup_beforeParse ?b (default_options options)\<rparr>"
  have "buildDom E ?o None None ?s \<noteq> Inl window_error"
    using buildDom_Inl[of E ?o None None ?s window_error] popup_beforeParse_Inl by auto
  with a e show False
    by (auto simp: buildPopup_def Let_def split_beta window_error_def
        dest!: call_option_Inl split: sum.splits)
qed

lemma set_prop_Inl: "set_prop v k x = Inl e \<Longrightarrow> e = TypeError k"
  by (cases v) auto

lemma prepare_option_Inl: "prepare_option k opts = Inl e \<Longrightarrow> e \<noteq> window_error"
  by (auto simp: prepare_option_def Let_def window_error_def
      dest!: set_prop_Inl split: if_splits sum.splits)

lemma background_guard_Inl: "background_guard opts manifest = Inl e \<Longrightarrow> e \<noteq> window_error"
  by (auto simp: background_guard_def window_error_def
      dest!: get_prop_Inl split: if_splits sum.splits)

lemma popup_guard_Inl: "popup_guard opts manifest = Inl e \<Longrightarrow> e \<noteq> window_error"
  by (auto simp: popup_guard_def window_error_def
      dest!: get_prop_Inl split: if_splits sum.splits)

lemma background_guard_True:
  assumes "background_guard opts manifest = Inr True"
  shows "truthy (peek (peek manifest ''background'') ''page'')
       \<or> truthy (peek (peek manifest ''background'') ''scripts'')"
  using background_guard_Inr[OF assms] by simp

lemma load_background_Inl:
  assumes "load_background E m manifest opts st = (opts1, Inl e)"
  shows "e \<noteq> window_error"
proof
  assume e: "e = window_error"
  show False
  proof (cases "background_guard opts manifest")
    case (Inl e')
    with assms background_guard_Inl[OF Inl] e show False
      by (simp add: load_background_def)
  next
    case (Inr g)
    show False
    proof (cases g)
      case False
      with Inr assms show False by (simp add: load_background_def)
    next
      case True
      from Inr True have "background_guard opts manifest = Inr True" by simp
      from background_guard_True[OF this] have
        t: "truthy (peek (peek manifest ''background'') ''page'')
          \<or> truthy (peek (peek manifest ''background'') ''scripts'')" .
      have nb: "buildBackground E (peek manifest ''background'') m o1 st \<noteq> Inl window_error"
        for o1
        using buildBackground_window_error[of E "peek manifest ''background''" m o1 st] t
        by blast
      from assms e Inr True nb show False
        by (auto simp: load_background_def peek_def window_error_def
            dest!: prepare_option_Inl[unfolded window_error_def] get_prop_Inl
            split: sum.splits prod.splits)
    qed
  qed
qed

lemma load_popup_Inl:
  assumes "load_popup E m manifest opts res st = (opts1, Inl e)"
  shows "e \<noteq> window_error"
proof
  assume e: "e = window_error"
  have nb: "buildPopup E p o1 st \<noteq> Inl window_error" for p o1
    using buildPopup_Inl by blast
  from assms e nb show False
    by (auto simp: load_popup_def window_error_def js_path_resolve_def
        dest!: prepare_option_Inl[unfolded window_error_def] get_prop_Inl js_strings_Inl
          popup_guard_Inl[unfolded window_error_def]
        split: sum.splits prod.splits bool.splits)
qed

lemma fromManifest_Inl:
  "snd (fromManifest E m opts) \<noteq> Inl window_error"
proof
  assume a: "snd (fromManifest E m opts) = Inl window_error"
  obtain opts' where f: "fromManifest E m opts = (opts', Inl window_error)"
    using a by (cases "fromManifest E m opts") auto
  show False
  proof (cases "readFileSync E (path_resolve E [m, ''manifest.json''])")
    case None
    with f show False by (simp add: fromManifest_def Let_def window_error_def)
  next
    case (Some contents)
    show False
    proof (cases "JSON_parse E contents")
      case None
      with Some f show False by (simp add: fromManifest_def Let_def window_error_def)
    next
      case manifest: (Some manifest)
      obtain opts1 r1 where
        lb: "load_background E m manifest opts (initial_state E m) = (opts1, r1)"
        by (cases "load_background E m manifest opts (initial_state E m)") blast
      show False
      proof (cases r1)
        case (Inl e)
        with f Some manifest lb have "e = window_error"
          by (simp add: fromManifest_def Let_def initial_state_def)
        moreover from lb Inl have
          "load_background E m manifest opts (initial_state E m) = (opts1, Inl e)" by simp
        ultimately show False using load_background_Inl by blast
      next
        case (Inr x)
        obtain res1 st1 where x: "x = (res1, st1)" by (cases x)
        with Inr f Some manifest lb
        have "load_popup E m manifest opts1 res1 st1 = (opts', Inl window_error)"
          by (simp add: fromManifest_def Let_def initial_state_def)
        from load_popup_Inl[OF this] show False by simp
      qed
    qed
  qed
qed

lemma buildBackground_undefined_dom:
  assumes "background \<noteq> JUndefined" "background \<noteq> JNull"
      and "\<not> truthy (peek background ''page'')" "\<not> truthy (peek background ''scripts'')"
  shows "buildBackground E background m options st = Inl window_error"
  using background_dom_undefined[OF assms]
  by (simp add: buildBackground_def Let_def split_beta window_error_def)

lemma buildBackground_dom_defined:
  assumes "buildBackground E background m options st = Inr (c, st')"
  shows "doms st' (ctx_dom c) \<noteq> None \<and> ctx_document c = ctx_dom c"
  using assms
proof (cases rule: buildBackground_Inr)
  case (1 af pth html0 srcs ss codes src)
  from 1(6) show ?thesis by (simp add: 1(2))
qed

text \<open>
  Claim C9, amended. \<open>window_error\<close> is the TypeError of line 98, the read of \<^verbatim>\<open>dom.window\<close> on
  a \<^verbatim>\<open>dom\<close> that is \<^verbatim>\<open>undefined\<close>. With a truthy \<^verbatim>\<open>page\<close> or a truthy \<^verbatim>\<open>scripts\<close>
  in its background argument, \<open>buildBackground\<close> never ends in that error, and a context
  it returns has a \<^verbatim>\<open>dom\<close> that exists in the store, with \<^verbatim>\<open>document\<close> the document of
  that \<^verbatim>\<open>dom\<close>. With a background argument that is an object or a primitive and has
  neither, it ends in that error. The condition of lines 161-163 holds only for a
  manifest whose background has one of the two, so that no call of \<open>fromManifest\<close> ends
  in that error.
\<close>

theorem buildBackground_page_or_scripts:
  "(truthy (peek background ''page'') \<or> truthy (peek background ''scripts'')
      \<longrightarrow> buildBackground E background m options st \<noteq> Inl window_error)
 \<and> (buildBackground E background m options st = Inr (c, st')
      \<longrightarrow> doms st' (ctx_dom c) \<noteq> None \<and> ctx_document c = ctx_dom c)
 \<and> (background \<noteq> JUndefined \<and> background \<noteq> JNull
      \<and> \<not> truthy (peek background ''page'') \<and> \<not> truthy (peek background ''scripts'')
      \<longrightarrow> buildBackground E background m options st = Inl window_error)
 \<and> (background_guard opts manifest = Inr True
      \<longrightarrow> truthy (peek (peek manifest ''background'') ''page'')
        \<or> truthy (peek (peek manifest ''background'') ''scripts''))
 \<and> snd (fromManifest E m opts) \<noteq> Inl window_error"
  using buildBackground_window_error[of E background m options st]
    buildBackground_dom_defined[of E background m options st c st']
    buildBackground_undefined_dom[of background E m options st]
    background_guard_True[of opts manifest]
    fromManifest_Inl[of E m opts]
  by blast

lemma background_run:
  "\<exists>c st'.
     buildBackground (example_env example_manifest) (peek example_manifest ''background'')
       ''/ext'' JUndefined new_WebExtensionsJSDOM = Inr (c, st')"
  by (simp add: run_defs example_manifest_def peek_def)

text \<open>
  A background entry with neither field, the background entry of the example, and the
  example run.
\<close>

theorem buildBackground_page_or_scripts_witness:
  "buildBackground (example_env example_manifest) (JObj [(''persistent'', JBool True)])
     ''/ext'' JUndefined new_WebExtensionsJSDOM = Inl window_error
 \<and> truthy (peek (peek example_manifest ''background'') ''page'')
 \<and> buildBackground (example_env example_manifest) (peek example_manifest ''background'')
     ''/ext'' JUndefined new_WebExtensionsJSDOM \<noteq> Inl window_error
 \<and> (\<exists>c st'.
       buildBackground (example_env example_manifest) (peek example_manifest ''background'')
         ''/ext'' JUndefined new_WebExtensionsJSDOM = Inr (c, st')
     \<and> doms st' (ctx_dom c) \<noteq> None \<and> ctx_document c = ctx_dom c)
 \<and> background_guard [] example_manifest = Inr True
 \<and> snd (fromManifest (example_env example_manifest) ''/ext'' []) \<noteq> Inl window_error"
proof -
  let ?E = "example_env example_manifest"
  from background_run obtain c st' where
    b: "buildBackground ?E (peek example_manifest ''background'')
         ''/ext'' JUndefined new_WebExtensionsJSDOM = Inr (c, st')"
    by blast
  have g: "background_guard [] example_manifest = Inr True"
    by (simp add: background_guard_def example_manifest_def)
  have n: "JObj [(''persistent'', JBool True)] \<noteq> JUndefined"
    "JObj [(''persistent'', JBool True)] \<noteq> JNull"
    "\<not> truthy (peek (JObj [(''persistent'', JBool True)]) ''page'')"
    "\<not> truthy (peek (JObj [(''persistent'', JBool True)]) ''scripts'')"
    by (simp_all add: peek_def)
  have 1: "buildBackground ?E (JObj [(''persistent'', JBool True)])
     ''/ext'' JUndefined new_WebExtensionsJSDOM = Inl window_error"
    using buildBackground_page_or_scripts[where background = "JObj [(''persistent'', JBool True)]"
        and E = ?E and m = "''/ext''" and options = JUndefined
        and st = new_WebExtensionsJSDOM] n
    by blast
  have p: "truthy (peek (peek example_manifest ''background'') ''page'')
      \<or> truthy (peek (peek example_manifest ''background'') ''scripts'')"
    using buildBackground_page_or_scripts[where opts = "[]" and manifest = example_manifest] g
    by blast
  then have p': "truthy (peek (peek example_manifest ''background'') ''page'')"
    by (simp add: example_manifest_def peek_def)
  have 2: "buildBackground ?E (peek example_manifest ''background'')
       ''/ext'' JUndefined new_WebExtensionsJSDOM \<noteq> Inl window_error
     \<and> doms st' (ctx_dom c) \<noteq> None \<and> ctx_document c = ctx_dom c"
    using buildBackground_page_or_scripts[where background = "peek example_manifest ''background''"
        and E = ?E and m = "''/ext''" and options = JUndefined
        and st = new_WebExtensionsJSDOM and c = c and st' = st'] b p
    by blast
  have 3: "snd (fromManifest ?E ''/ext'' []) \<noteq> Inl window_error"
    using buildBackground_page_or_scripts[where E = ?E and m = "''/ext''" and opts = "[]"]
    by blast
  from 1 2 3 b g p' show ?thesis by blast
qed

text \<open>
  Claim C9 as stated asks only that the background argument has a \<^verbatim>\<open>page\<close> field or a
  \<^verbatim>\<open>scripts\<close> field. With \<^verbatim>\<open>{page: ''}\<close>, which has a \<^verbatim>\<open>page\<close> field, the tests of
  lines 82 and 86 both fail, \<^verbatim>\<open>dom\<close> stays \<^verbatim>\<open>undefined\<close> and line 98 throws: the
  tests are tests for truthiness.
\<close>

theorem buildBackground_empty_page_counterexample:
  "map_of [(''page'', JStr [])] ''page'' = Some (JStr [])
   \<and> get_prop (JObj [(''page'', JStr [])]) ''page'' = Inr (JStr [])
   \<and> buildBackground (example_env example_manifest) (JObj [(''page'', JStr [])])
        ''/ext'' JUndefined new_WebExtensionsJSDOM = Inl (TypeError ''window'')"
  using buildBackground_undefined_dom[of "JObj [(''page'', JStr [])]"
      "example_env example_manifest" "''/ext''" JUndefined new_WebExtensionsJSDOM]
  by (simp add: peek_def window_error_def)

section \<open>Resolution of the paths\<close>

lemma buildPopup_frame:
  assumes "buildPopup E popupPath options st = Inr (c, st')"
  shows "\<exists>evs. trace st' = trace st @ evs" "\<And>r. r < next_ref st \<Longrightarrow> doms st' r = doms st r"
proof -
  from assms show "\<exists>evs. trace st' = trace st @ evs"
  proof (cases rule: buildPopup_Inr)
    case (1 af ss codes src)
    from 1(9) show ?thesis by blast
  qed
  from assms show "doms st' r = doms st r" if "r < next_ref st" for r
  proof (cases rule: buildPopup_Inr)
    case (1 af ss codes src)
    from 1(5)[of r] that show ?thesis by simp
  qed
qed

text \<open>
  Claim C6. When the promise of \<open>fromManifest\<close> resolves, the first library call was the
  read of \<^verbatim>\<open>path.resolve(manifestPath, 'manifest.json')\<close>, and the manifest is what
  \<^verbatim>\<open>JSON.parse\<close> made of the contents. \<open>background_paths\<close>: the JSDOM instance of the
  background context was loaded from \<^verbatim>\<open>path.resolve(manifestPath, page)\<close> when the
  manifest has a truthy \<^verbatim>\<open>background.page\<close>; otherwise the scripts instrumented for
  it, between its parsing and its evaluation, are
  \<^verbatim>\<open>path.resolve(path.join(manifestPath, script))\<close> for each script of
  \<^verbatim>\<open>background.scripts\<close>, in order (less a leading \<^verbatim>\<open>file://\<close>, which \<open>buildDom\<close>
  strips). \<open>popup_path\<close>: the JSDOM instance of the popup context was loaded from
  \<^verbatim>\<open>path.resolve(manifestPath, default_popup)\<close>.
\<close>

theorem fromManifest_resolves_paths:
  assumes "fromManifest E m opts = (opts', Inr (res, st))"
  shows "\<exists>contents manifest.
      readFileSync E (path_resolve E [m, ''manifest.json'']) = Some contents
    \<and> JSON_parse E contents = Some manifest
    \<and> hd (trace st) = ReadFile (path_resolve E [m, ''manifest.json''])
    \<and> (\<forall>cb. res ''background'' = Some cb \<longrightarrow>
          background_paths E m (peek manifest ''background'') cb st)
    \<and> (\<forall>cp. res ''popup'' = Some cp \<longrightarrow>
          popup_path E m (peek manifest ''browser_action'') cp st)"
  using assms
proof (cases rule: fromManifest_structure)
  case (1 contents manifest st1)
  let ?p = "path_resolve E [m, ''manifest.json'']"
  let ?mb = "peek manifest ''background''"
  have t0: "trace (initial_state E m) = [ReadFile ?p]"
    by (simp add: initial_state_def new_WebExtensionsJSDOM_def)
  \<comment> \<open>the popup step\<close>
  have step2: "(\<exists>evs. trace st = trace st1 @ evs)
      \<and> (\<forall>r. r < next_ref st1 \<longrightarrow> doms st r = doms st1 r)"
  proof (cases "res ''popup''")
    case None
    with 1(4) show ?thesis by simp
  next
    case (Some cp)
    with 1(4) obtain s where
      "buildPopup E (path_resolve E [m, s])
         (prepared_option (own_prop opts ''popup'') (own_prop opts ''apiFake'')) st1
         = Inr (cp, st)" by auto
    from buildPopup_frame[OF this] show ?thesis by blast
  qed
  then obtain evs2 where e2: "trace st = trace st1 @ evs2" by blast
  \<comment> \<open>the background step\<close>
  have step1: "\<exists>evs. trace st1 = ReadFile ?p # evs"
  proof (cases "res ''background''")
    case None
    with 1(3) t0 show ?thesis by simp
  next
    case (Some cb)
    with 1(3) have "buildBackground E ?mb m
        (prepared_option (own_prop opts ''background'') (own_prop opts ''apiFake''))
        (initial_state E m) = Inr (cb, st1)" by simp
    then show ?thesis
    proof (cases rule: buildBackground_Inr)
      case (1 af pth html0 srcs ss codes src)
      from 1(9) t0 show ?thesis by simp
    qed
  qed
  with e2 have hd: "hd (trace st) = ReadFile ?p" by auto
  have bg: "\<exists>D. doms st (ctx_dom cb) = Some D
             \<and> (if truthy (peek ?mb ''page'')
                then \<exists>s. peek ?mb ''page'' = JStr s
                       \<and> dom_path D = Some (path_resolve E [m, s])
                else \<exists>strs pre src post.
                       js_iterate (peek ?mb ''scripts'') = Inr (map JStr strs)
                     \<and> trace st = pre @ Parse (ctx_dom cb)
                         # map (\<lambda>s. Instrument
                                  (strip_file_prefix (path_resolve E [path_join E [m, s]])))
                             strs
                         @ Eval (ctx_dom cb) src # post)"
    if cb: "res ''background'' = Some cb" for cb
  proof -
    from 1(3) cb have "buildBackground E ?mb m
        (prepared_option (own_prop opts ''background'') (own_prop opts ''apiFake''))
        (initial_state E m) = Inr (cb, st1)" by simp
    then show ?thesis
    proof (cases rule: buildBackground_Inr)
      case b: (1 af pth html0 srcs ss codes src)
      let ?d = "Suc (next_ref (initial_state E m))"
      let ?D = "\<lparr>dom_path = pth, dom_html = html0, script_elements = srcs,
             window_browser = Some (next_ref (initial_state E m)), evaluated = [src]\<rparr>"
      have d: "ctx_dom cb = ?d" by (simp add: b(2))
      from step2 b(3) b(6) have D: "doms st ?d = Some ?D" by simp
      from b(10) show ?thesis
      proof (elim disjE exE conjE)
        fix s
        assume "get_prop ?mb ''page'' = Inr (JStr s)" "s \<noteq> []"
          "pth = Some (path_resolve E [m, s])"
        with D d show ?thesis by (simp add: peek_def)
      next
        fix page scripts strs
        assume a: "get_prop ?mb ''page'' = Inr page" "\<not> truthy page"
          "get_prop ?mb ''scripts'' = Inr scripts"
          "js_iterate scripts = Inr (map JStr strs)"
          "ss = map (\<lambda>s. path_resolve E [path_join E [m, s]]) strs"
        let ?pre = "trace (initial_state E m) @ CreateBrowser (next_ref (initial_state E m))
           # NewWindow ?d # SetWindowBrowser ?d (next_ref (initial_state E m))
           # (if truthy af then [FakeApi (next_ref (initial_state E m))] else [])
           @ callback_events (default_options
               (prepared_option (own_prop opts ''background'') (own_prop opts ''apiFake'')))
               ''beforeParse''"
        let ?post = "callback_events (default_options
               (prepared_option (own_prop opts ''background'') (own_prop opts ''apiFake'')))
               ''afterBuild'' @ evs2"
        have tr: "trace st = ?pre @ Parse ?d
            # map (\<lambda>s. Instrument (strip_file_prefix (path_resolve E [path_join E [m, s]]))) strs
            @ Eval ?d src # ?post"
          by (simp add: e2 b(9) a(5) comp_def)
        have it: "js_iterate (peek ?mb ''scripts'') = Inr (map JStr strs)"
          using a by (simp add: peek_def)
        have "\<exists>strs pre src post.
                js_iterate (peek ?mb ''scripts'') = Inr (map JStr strs)
              \<and> trace st = pre @ Parse (ctx_dom cb)
                  # map (\<lambda>s. Instrument
                           (strip_file_prefix (path_resolve E [path_join E [m, s]])))
                      strs
                  @ Eval (ctx_dom cb) src # post"
          unfolding d using it tr by blast
        moreover have "\<not> truthy (peek ?mb ''page'')" using a by (simp add: peek_def)
        ultimately show ?thesis using D d by simp
      qed
    qed
  qed
  have pp: "\<exists>s D. peek (peek manifest ''browser_action'') ''default_popup'' = JStr s
             \<and> doms st (ctx_dom cp) = Some D
             \<and> dom_path D = Some (path_resolve E [m, s])"
    if cp: "res ''popup'' = Some cp" for cp
  proof -
    from 1(4) cp obtain s where
      s: "peek (peek manifest ''browser_action'') ''default_popup'' = JStr s" and
      bp: "buildPopup E (path_resolve E [m, s])
         (prepared_option (own_prop opts ''popup'') (own_prop opts ''apiFake'')) st1
         = Inr (cp, st)" by auto
    from bp show ?thesis
    proof (cases rule: buildPopup_Inr)
      case (1 af ss codes src)
      from 1(6) s show ?thesis by (simp add: 1(2))
    qed
  qed
  from bg have "\<forall>cb. res ''background'' = Some cb \<longrightarrow>
      background_paths E m (peek manifest ''background'') cb st"
    unfolding background_paths_def by blast
  moreover from pp have "\<forall>cp. res ''popup'' = Some cp \<longrightarrow>
      popup_path E m (peek manifest ''browser_action'') cp st"
    unfolding popup_path_def by blast
  ultimately show ?thesis using 1(1,2) hd by blast
qed

lemma scripts_run:
  "\<exists>opts' res st.
     fromManifest (example_env scripts_manifest) ''/ext'' [] = (opts', Inr (res, st))
     \<and> res ''background'' = Some \<lparr>ctx_browser = 0, ctx_dom = 1, ctx_document = 1, ctx_helper = False\<rparr>
     \<and> res ''popup'' = Some \<lparr>ctx_browser = 2, ctx_dom = 3, ctx_document = 3, ctx_helper = True\<rparr>"
  by (simp add: run_defs scripts_manifest_def background_html_def)

text \<open>
  The example with background scripts: the manifest is read at \<open>/ext/manifest.json\<close>,
  the script instrumented is \<open>/ext/background.js\<close>, the popup is loaded from
  \<open>/ext/popup.html\<close>.
\<close>

theorem fromManifest_resolves_paths_witness:
  "\<exists>opts' res st.
     fromManifest (example_env scripts_manifest) ''/ext'' [] = (opts', Inr (res, st))
     \<and> hd (trace st) = ReadFile ''/ext/manifest.json''
     \<and> Instrument ''/ext/background.js'' \<in> set (trace st)
     \<and> map_option dom_path (doms st 3) = Some (Some ''/ext/popup.html'')"
proof -
  let ?E = "example_env scripts_manifest"
  from scripts_run obtain opts' res st where
    h: "fromManifest ?E ''/ext'' [] = (opts', Inr (res, st))" and
    rb: "res ''background'' = Some \<lparr>ctx_browser = 0, ctx_dom = 1, ctx_document = 1, ctx_helper = False\<rparr>" and
    rp: "res ''popup'' = Some \<lparr>ctx_browser = 2, ctx_dom = 3, ctx_document = 3, ctx_helper = True\<rparr>"
    by blast
  from fromManifest_resolves_paths[OF h] rb rp obtain contents manifest where
    r: "readFileSync ?E (path_resolve ?E [''/ext'', ''manifest.json'']) = Some contents" and
    p: "JSON_parse ?E contents = Some manifest" and
    hd: "hd (trace st) = ReadFile (path_resolve ?E [''/ext'', ''manifest.json''])" and
    bp: "background_paths ?E ''/ext'' (peek manifest ''background'')
           \<lparr>ctx_browser = 0, ctx_dom = 1, ctx_document = 1, ctx_helper = False\<rparr> st" and
    pp: "popup_path ?E ''/ext'' (peek manifest ''browser_action'')
           \<lparr>ctx_browser = 2, ctx_dom = 3, ctx_document = 3, ctx_helper = True\<rparr> st"
    by blast
  from r p have m: "manifest = scripts_manifest"
    by (simp add: example_env_def split: if_splits)
  from bp have i: "Instrument ''/ext/background.js'' \<in> set (trace st)"
    unfolding m background_paths_def
    by (auto simp: scripts_manifest_def peek_def example_env_def strip_file_prefix_def)
  from pp have d: "map_option dom_path (doms st 3) = Some (Some ''/ext/popup.html'')"
    unfolding m popup_path_def by (auto simp: scripts_manifest_def peek_def example_env_def)
  from hd have "hd (trace st) = ReadFile ''/ext/manifest.json''"
    by (simp add: example_env_def)
  with h i d show ?thesis by blast
qed

end
